theory Spec2Isabelle
  imports Complex_Main
begin

section \<open>JavaScript strings and values\<close>

text \<open>
  Strings are lists of 8-bit characters; the development reads them as ASCII text.
  \<open>String.prototype.toUpperCase\<close> changes the letters \<open>a\<close> to \<open>z\<close> and leaves every other
  ASCII character as it is; \<open>String.prototype.trim\<close> removes white space at both ends;
  \<open>String.prototype.includes\<close> looks for a substring.
\<close>

abbreviation LF :: char where
  "LF \<equiv> CHR 0x0A"

definition upperChar :: "char \<Rightarrow> char" where
  "upperChar c =
     (case map_of (zip ''abcdefghijklmnopqrstuvwxyz'' ''ABCDEFGHIJKLMNOPQRSTUVWXYZ'') c of
        Some u \<Rightarrow> u
      | None \<Rightarrow> c)"

definition toUpperCase :: "string \<Rightarrow> string" where
  "toUpperCase s = map upperChar s"

definition isWhiteSpace :: "char \<Rightarrow> bool" where
  "isWhiteSpace c \<longleftrightarrow>
     c \<in> set [CHR 0x09, CHR 0x0A, CHR 0x0B, CHR 0x0C, CHR 0x0D, CHR 0x20, CHR 0xA0]"

definition trim :: "string \<Rightarrow> string" where
  "trim s = rev (dropWhile isWhiteSpace (rev (dropWhile isWhiteSpace s)))"

fun startsWith :: "string \<Rightarrow> string \<Rightarrow> bool" where
  "startsWith s [] = True"
| "startsWith [] (p # ps) = False"
| "startsWith (c # cs) (p # ps) = (c = p \<and> startsWith cs ps)"

fun includesStr :: "string \<Rightarrow> string \<Rightarrow> bool" where
  "includesStr [] sub = (sub = [])"
| "includesStr (c # cs) sub = (startsWith (c # cs) sub \<or> includesStr cs sub)"

fun joinWith :: "string \<Rightarrow> string list \<Rightarrow> string" where
  "joinWith sep [] = []"
| "joinWith sep [x] = x"
| "joinWith sep (x # y # ys) = x @ sep @ joinWith sep (y # ys)"

text \<open>
  A JavaScript number is \<open>NaN\<close>, an infinity or a finite value. The finite values are
  kept as rationals: the claims below never compute with them, they only pass on what
  the builtins return.
\<close>

datatype jsnum = NaN | PosInfinity | NegInfinity | Num rat

fun isNaN :: "jsnum \<Rightarrow> bool" where
  "isNaN NaN = True"
| "isNaN _ = False"

fun numIsFinite :: "jsnum \<Rightarrow> bool" where
  "numIsFinite (Num _) = True"
| "numIsFinite _ = False"

text \<open>A field of a parsed CSV record: a string, or \<open>null\<close>.\<close>

datatype cell = CString string | CNull

text \<open>A value handed to the prepared statement: \<open>null\<close>, a number or a text.\<close>

datatype sqlval = SqlNull | SqlNumber jsnum | SqlText string

text \<open>
  A value read from a query result row or from a row object: besides numbers, strings and
  \<open>null\<close> there is \<open>undefined\<close> (a missing property) and an opaque object (a blob, or a
  member inherited from \<open>Object.prototype\<close>).
\<close>

datatype jsval = JUndefined | JNull | JNumber jsnum | JString string | JObject

section \<open>The schema registry\<close>

datatype coltype = TypeText | TypeReal | TypeInteger | TypeBoolean

record table_schema =
  tableName :: string
  tableColumns :: "(string \<times> coltype) list"
  primaryKey :: "string list"

definition TABLE_SCHEMAS :: "table_schema list" where
  "TABLE_SCHEMAS =
     [\<lparr>tableName = ''product_ad_sales_metrics'',
       tableColumns =
         [(''date'', TypeText), (''item_id'', TypeText), (''ad_sales'', TypeReal),
          (''impressions'', TypeInteger), (''ad_spend'', TypeReal), (''clicks'', TypeInteger),
          (''units_sold'', TypeInteger)],
       primaryKey = [''date'', ''item_id'']\<rparr>,
      \<lparr>tableName = ''product_total_sales_metrics'',
       tableColumns =
         [(''date'', TypeText), (''item_id'', TypeText), (''total_sales'', TypeReal),
          (''total_units_ordered'', TypeInteger)],
       primaryKey = [''date'', ''item_id'']\<rparr>,
      \<lparr>tableName = ''product_eligibility'',
       tableColumns =
         [(''eligibility_datetime_utc'', TypeText), (''item_id'', TypeText),
          (''eligibility'', TypeBoolean), (''message'', TypeText)],
       primaryKey = [''eligibility_datetime_utc'', ''item_id'']\<rparr>]"

definition schemaOf :: "string \<Rightarrow> table_schema option" where
  "schemaOf t = find (\<lambda>sch. tableName sch = t) TABLE_SCHEMAS"

definition declaredType :: "string \<Rightarrow> string \<Rightarrow> coltype option" where
  "declaredType t col =
     (case schemaOf t of None \<Rightarrow> None | Some sch \<Rightarrow> map_of (tableColumns sch) col)"

section \<open>The environment: builtins, CSV parser, database engine, model endpoint\<close>

text \<open>
  The application drives four things it does not define: the JavaScript builtins
  \<open>parseFloat\<close> and \<open>isFinite\<close>, the Papa Parse CSV parser, the sql.js database engine and
  the JSON parser applied to the replies of the language model. Each is a field of the
  environment, and every theorem below holds for every environment.

  \<^item> \<open>parseFloat\<close> gives the number a string starts with, \<open>toNumber\<close> the number the whole
    string converts to (the conversion the global \<open>isFinite\<close> applies to its argument).
  \<^item> \<open>papaParse\<close> gives what \<open>Papa.parse\<close> reports for a CSV text with the options
    \<open>header: true, skipEmptyLines: true\<close>: the \<open>error\<close> callback with a message, or the
    \<open>complete\<close> callback with the messages of \<open>results.errors\<close> and the records of
    \<open>results.data\<close>, each record listing its fields in the order of \<open>Object.keys\<close>.
  \<^item> \<open>prepareError\<close> is the message with which \<open>db.prepare\<close> throws for a statement text,
    if it does; \<open>runError\<close> is the message with which \<open>stmt.run\<close> throws for the bound
    values, given the statement text and the present content of the tables, if it does.
  \<^item> \<open>execQuery\<close> is the outcome of \<open>db.exec\<close> on the synthesized SQL: an exception with
    its message, or the list of result sets (columns and rows of values).
  \<^item> \<open>jsonParseSql\<close> and \<open>jsonParseFinal\<close> are \<open>JSON.parse\<close> on the two replies, read at
    the fields the code uses: \<open>Inl\<close> is the message of the exception, \<open>Inr\<close> the field
    \<open>sql_query\<close> when it is a string, respectively the fields \<open>answer\<close> (taken to be a
    string, as the declared response schema has it) and \<open>visualization\<close>.
  \<^item> \<open>typeErrorMessage\<close> is the message of the \<open>TypeError\<close> raised when a method is called
    on \<open>undefined\<close>.
  \<^item> \<open>numberText\<close> is the text the engine makes of a number it stores in a column of text
    affinity, \<open>numericText\<close> the number it makes of a text that reads as one when it stores
    it in a column of numeric affinity.
  \<^item> \<open>updaterLag\<close> belongs to React: \<open>updaterLag k\<close> is the number of times the callback
    of the typing timer has advanced its counter between the \<open>k\<close>-th call of the state
    setter and the run of the updater function that call was given. It is 0 for an
    updater that React runs at once, inside the call of the setter, and at least 1 for
    an updater that React queues and runs when it renders.
\<close>

record papa_results =
  errors :: "string list"
  data :: "(string \<times> cell) list list"

datatype papa_outcome = PapaError string | PapaComplete papa_results

datatype exec_outcome = ExecThrows string | ExecReturns "(string list \<times> jsval list list) list"

record visualization =
  chart_type :: "string option"
  labels :: "string option"
  vals :: "string option"

record parsed_final =
  answerText :: string
  visualizationOf :: "visualization option"

record env =
  parseFloat :: "string \<Rightarrow> jsnum"
  toNumber :: "string \<Rightarrow> jsnum"
  papaParse :: "string \<Rightarrow> papa_outcome"
  prepareError :: "string \<Rightarrow> string option"
  runError :: "string \<Rightarrow> (string \<Rightarrow> sqlval list list) \<Rightarrow> sqlval list \<Rightarrow> string option"
  execQuery :: "string \<Rightarrow> exec_outcome"
  jsonParseSql :: "string \<Rightarrow> string + string option"
  jsonParseFinal :: "string \<Rightarrow> string + parsed_final"
  typeErrorMessage :: string
  numberText :: "jsnum \<Rightarrow> string"
  numericText :: "string \<Rightarrow> jsnum option"
  updaterLag :: "nat \<Rightarrow> nat"

definition isFinite :: "env \<Rightarrow> string \<Rightarrow> bool" where
  "isFinite e s = numIsFinite (toNumber e s)"

section \<open>Column coercion\<close>

text \<open>
  The function mapped over \<open>Object.values(row)\<close> in \<open>parseAndInsert\<close>. It receives the
  value alone: neither the column's name nor the table's name reaches it.
\<close>

definition coerceValue :: "env \<Rightarrow> cell \<Rightarrow> sqlval" where
  "coerceValue e v =
     (case v of
        CString s \<Rightarrow>
          if toUpperCase s = ''TRUE'' then SqlNumber (Num 1)
          else if toUpperCase s = ''FALSE'' then SqlNumber (Num 0)
          else if trim s = [] then SqlNull
          else if \<not> isNaN (parseFloat e s) \<and> isFinite e s then SqlNumber (parseFloat e s)
          else SqlText s
      | CNull \<Rightarrow> SqlNull)"

definition objectKeys :: "(string \<times> 'a) list \<Rightarrow> string list" where
  "objectKeys row = map fst row"

definition objectValues :: "(string \<times> 'a) list \<Rightarrow> 'a list" where
  "objectValues row = map snd row"

text \<open>\<open>Object.values(row).map(...)\<close>: the values bound for one record.\<close>

definition coerceRow :: "env \<Rightarrow> (string \<times> cell) list \<Rightarrow> sqlval list" where
  "coerceRow e row = map (coerceValue e) (objectValues row)"

text \<open>
  The coercion as the specification words it, with the declared type of the target column
  as an argument: the boolean literals are mapped to 1 and 0 in a boolean column only.
  It is compared with \<open>coerceValue\<close> below.
\<close>

definition specCoerce :: "env \<Rightarrow> coltype \<Rightarrow> cell \<Rightarrow> sqlval" where
  "specCoerce e declared v =
     (case v of
        CString s \<Rightarrow>
          if declared = TypeBoolean \<and> toUpperCase s = ''TRUE'' then SqlNumber (Num 1)
          else if declared = TypeBoolean \<and> toUpperCase s = ''FALSE'' then SqlNumber (Num 0)
          else if trim s = [] then SqlNull
          else if \<not> isNaN (parseFloat e s) \<and> isFinite e s then SqlNumber (parseFloat e s)
          else SqlText s
      | CNull \<Rightarrow> SqlNull)"

section \<open>The database handle and the effects of a run\<close>

text \<open>
  The database holds the rows of every table and, while a transaction is open, the
  content the tables had at \<open>BEGIN TRANSACTION\<close>: \<open>ROLLBACK\<close> restores it, \<open>COMMIT\<close> drops
  it. The tables keep, for every run, the list of values the run bound: a run that does not
  throw appends its row to the table of the statement, a run that throws changes nothing.
  \<open>BEGIN\<close> throws inside an open transaction; \<open>COMMIT\<close> and \<open>ROLLBACK\<close> are taken not to throw:
  the code reaches them only after its own \<open>BEGIN\<close> succeeded.
\<close>

record database =
  tables :: "string \<Rightarrow> sqlval list list"
  snapshot :: "(string \<Rightarrow> sqlval list list) option"


text \<open>
  The calls a run makes on its collaborators, in the order it makes them. The events of
  \<open>parseAndInsert\<close> carry the table name the call was given, so that the events of the
  three datasets can be told apart; \<open>Resolve\<close> and \<open>Reject\<close> settle the promise the call
  returned.
\<close>

datatype request = SqlRequest | AnswerRequest

datatype event =
    CreateTable string
  | Warn string string
  | Begin string
  | Prepare string string
  | Run string "sqlval list"
  | Commit string
  | Rollback string
  | Free string
  | Resolve string
  | Reject string string
  | Fetch request
  | Query string
  | StartTyping string
  | ConsoleWarn string

definition execBegin :: "database \<Rightarrow> string + database" where
  "execBegin d =
     (case snapshot d of
        None \<Rightarrow> Inr (d\<lparr>snapshot := Some (tables d)\<rparr>)
      | Some _ \<Rightarrow> Inl ''cannot start a transaction within a transaction'')"

definition execCommit :: "database \<Rightarrow> database" where
  "execCommit d = d\<lparr>snapshot := None\<rparr>"

definition execRollback :: "database \<Rightarrow> database" where
  "execRollback d =
     (case snapshot d of
        None \<Rightarrow> d
      | Some saved \<Rightarrow> d\<lparr>tables := saved, snapshot := None\<rparr>)"

definition appendRow :: "string \<Rightarrow> sqlval list \<Rightarrow> database \<Rightarrow> database" where
  "appendRow t bound d = d\<lparr>tables := (tables d)(t := tables d t @ [bound])\<rparr>"

section \<open>CSV ingestion\<close>

definition insertSql :: "string \<Rightarrow> string list \<Rightarrow> string" where
  "insertSql t ks =
     ''INSERT INTO '' @ t @ '' ('' @
     joinWith '', '' (map (\<lambda>col. [CHR 0x22] @ col @ [CHR 0x22]) ks) @
     '') VALUES ('' @ joinWith '', '' (map (\<lambda>_. ''?'') ks) @ '');''"

definition parseFailure :: "string \<Rightarrow> string \<Rightarrow> string" where
  "parseFailure t err = ''CSV parsing error for '' @ t @ '': '' @ err"

definition insertFailure :: "string \<Rightarrow> string \<Rightarrow> string" where
  "insertFailure t detail = ''Error inserting data into '' @ t @ '': '' @ detail"

text \<open>
  The loop \<open>for (const row of data)\<close>: each record is coerced and run; the first exception
  of \<open>stmt.run\<close> ends the loop with its message. \<open>tablesAfter e t rows k tabs\<close> is the
  content of the tables inside the transaction once the first \<open>k\<close> records have been run:
  it is what the engine sees when it decides on record \<open>k\<close>.
\<close>

definition tablesAfter ::
  "env \<Rightarrow> string \<Rightarrow> (string \<times> cell) list list \<Rightarrow> nat \<Rightarrow> (string \<Rightarrow> sqlval list list) \<Rightarrow>
   string \<Rightarrow> sqlval list list" where
  "tablesAfter e t rows k tabs = tabs(t := tabs t @ map (coerceRow e) (take k rows))"

fun insertRows ::
  "env \<Rightarrow> string \<Rightarrow> string \<Rightarrow> (string \<times> cell) list list \<Rightarrow> database \<times> event list \<Rightarrow>
   (string + unit) \<times> database \<times> event list" where
  "insertRows e t sql [] (d, evs) = (Inr (), d, evs)"
| "insertRows e t sql (row # rows) (d, evs) =
     (let bound = coerceRow e row in
      case runError e sql (tables d) bound of
        Some msg \<Rightarrow> (Inl msg, d, evs @ [Run t bound])
      | None \<Rightarrow> insertRows e t sql rows (appendRow t bound d, evs @ [Run t bound]))"

text \<open>
  \<open>parseAndInsert(csvContent, tableName)\<close>. The promise it returns is settled inside the
  \<open>complete\<close> callback, which Papa Parse calls before \<open>Papa.parse\<close> returns for a string
  input; the result \<open>Inl msg\<close> is a rejection with that message, \<open>Inr ()\<close> a resolution.
  \<open>BEGIN TRANSACTION\<close> stands before the \<open>try\<close>: its exception rejects the promise with the
  engine's own message. An exception of \<open>db.prepare\<close> leaves \<open>stmt\<close> null, so the handler
  rolls back and frees nothing.
\<close>

definition parseAndInsert ::
  "env \<Rightarrow> string \<Rightarrow> string \<Rightarrow> database \<times> event list \<Rightarrow>
   (string + unit) \<times> database \<times> event list" where
  "parseAndInsert e csvContent t w =
     (case w of (d, evs) \<Rightarrow>
      (case papaParse e csvContent of
        PapaError msg \<Rightarrow> (Inl msg, d, evs @ [Reject t msg])
      | PapaComplete results \<Rightarrow>
          (case errors results of
             err # _ \<Rightarrow>
               (Inl (parseFailure t err), d, evs @ [Reject t (parseFailure t err)])
           | [] \<Rightarrow>
               (case data results of
                  [] \<Rightarrow>
                    (Inr (), d,
                     evs @ [Warn t (''No data found in '' @ t @ '' CSV.''), Resolve t])
                | first # _ \<Rightarrow>
                    (let sql = insertSql t (objectKeys first) in
                     case execBegin d of
                       Inl msg \<Rightarrow> (Inl msg, d, evs @ [Begin t, Reject t msg])
                     | Inr d1 \<Rightarrow>
                         (case prepareError e sql of
                            Some detail \<Rightarrow>
                              (Inl (insertFailure t detail), execRollback d1,
                               evs @ [Begin t, Prepare t sql, Rollback t,
                                      Reject t (insertFailure t detail)])
                          | None \<Rightarrow>
                              (case insertRows e t sql (data results)
                                      (d1, evs @ [Begin t, Prepare t sql]) of
                                 (Inr _, d2, evs2) \<Rightarrow>
                                   (Inr (), execCommit d2,
                                    evs2 @ [Commit t, Free t, Resolve t])
                               | (Inl detail, d2, evs2) \<Rightarrow>
                                   (Inl (insertFailure t detail), execRollback d2,
                                    evs2 @ [Rollback t, Free t,
                                            Reject t (insertFailure t detail)]))))))))"

text \<open>
  The three awaited calls of \<open>loadDataIntoDB\<close>, in the order they are written. A rejected
  promise makes \<open>await\<close> throw, which leaves the \<open>try\<close> block: the calls after it are not
  made.
\<close>

definition ingestDatasets ::
  "env \<Rightarrow> string \<Rightarrow> string \<Rightarrow> string \<Rightarrow> database \<times> event list \<Rightarrow>
   (string + unit) \<times> database \<times> event list" where
  "ingestDatasets e adSales totalSales eligibility w =
     (case parseAndInsert e adSales ''product_ad_sales_metrics'' w of
        (Inl msg, w1) \<Rightarrow> (Inl msg, w1)
      | (Inr _, w1) \<Rightarrow>
          (case parseAndInsert e totalSales ''product_total_sales_metrics'' w1 of
             (Inl msg, w2) \<Rightarrow> (Inl msg, w2)
           | (Inr _, w2) \<Rightarrow> parseAndInsert e eligibility ''product_eligibility'' w2))"

section \<open>Reading the events of an ingestion\<close>










section \<open>The component state and the loading operation\<close>

record chart =
  chartLabels :: "jsval list"
  datasetLabel :: string
  chartValues :: "jsval list"

record app_state =
  apiKey :: string
  db :: "database option"
  productAdSalesCsv :: "string option"
  productTotalSalesCsv :: "string option"
  productEligibilityCsv :: "string option"
  question :: string
  answer :: string
  isLoading :: bool
  dbStatus :: string
  error :: string
  isDatabaseReady :: bool
  chartData :: "chart option"
  chartType :: "string option"
  effects :: "event list"

text \<open>\<open>!csv\<close> holds for \<open>null\<close> and for the empty string.\<close>

definition falsy :: "string option \<Rightarrow> bool" where
  "falsy x = (case x of None \<Rightarrow> True | Some s \<Rightarrow> s = [])"

definition textOf :: "string option \<Rightarrow> string" where
  "textOf x = (case x of None \<Rightarrow> [] | Some s \<Rightarrow> s)"

definition loadDataIntoDB :: "env \<Rightarrow> app_state \<Rightarrow> app_state" where
  "loadDataIntoDB e s =
     (case db s of
        None \<Rightarrow> s\<lparr>error := ''Database not initialized.''\<rparr>
      | Some d \<Rightarrow>
          if falsy (productAdSalesCsv s) \<or> falsy (productTotalSalesCsv s) \<or>
             falsy (productEligibilityCsv s)
          then s\<lparr>error := ''Please upload all three CSV files.''\<rparr>
          else
            (let s1 = s\<lparr>isLoading := True, error := [],
                         dbStatus := ''Loading data into database...''\<rparr>;
                 evs0 = effects s @ map (\<lambda>sch. CreateTable (tableName sch)) TABLE_SCHEMAS
             in case ingestDatasets e (textOf (productAdSalesCsv s))
                       (textOf (productTotalSalesCsv s)) (textOf (productEligibilityCsv s))
                       (d, evs0) of
                  (Inr _, d', evs') \<Rightarrow>
                    s1\<lparr>db := Some d', effects := evs', isDatabaseReady := True,
                       dbStatus := ''All data loaded successfully!'', isLoading := False\<rparr>
                | (Inl msg, d', evs') \<Rightarrow>
                    s1\<lparr>db := Some d', effects := evs',
                       error := ''Error loading data: '' @ msg,
                       dbStatus := ''Data loading failed.'', isLoading := False\<rparr>))"

section \<open>Question answering\<close>

text \<open>
  The source holds two versions of the component. They share \<open>loadDataIntoDB\<close> and differ in
  \<open>askQuestion\<close>: the first asks the model for a JSON object with the field \<open>sql_query\<close>,
  the second for a fenced block labelled \<open>sql\<close>; their fixed messages differ in wording.
\<close>

datatype version = JsonReply | FencedReply

text \<open>
  What \<open>fetch\<close> and \<open>response.json()\<close> give for one request: an exception, or a body whose
  first candidate's first part carries a text (\<open>None\<close> when the body has no such part).
\<close>

datatype reply = FetchThrows string | Body "string option"

abbreviation fence :: string where
  "fence \<equiv> [CHR 0x60, CHR 0x60, CHR 0x60]"

fun afterFirst :: "string \<Rightarrow> string \<Rightarrow> string option" where
  "afterFirst pat [] = (if pat = [] then Some [] else None)"
| "afterFirst pat (c # cs) =
     (if startsWith (c # cs) pat then Some (drop (length pat) (c # cs)) else afterFirst pat cs)"

fun beforeFirst :: "string \<Rightarrow> string \<Rightarrow> string option" where
  "beforeFirst pat [] = (if pat = [] then Some [] else None)"
| "beforeFirst pat (c # cs) =
     (if startsWith (c # cs) pat then Some []
      else map_option (\<lambda>r. c # r) (beforeFirst pat cs))"

text \<open>
  The capture of the regular expression that looks for the fence, \<open>sql\<close>, a line feed, the
  shortest text, a line feed and the fence: the text between the first opening and the
  first closing after it.
\<close>

definition matchSqlBlock :: "string \<Rightarrow> string option" where
  "matchSqlBlock rawText =
     (case afterFirst (fence @ ''sql'' @ [LF]) rawText of
        None \<Rightarrow> None
      | Some rest \<Rightarrow> beforeFirst (LF # fence) rest)"

definition cannotAnswer :: "version \<Rightarrow> string" where
  "cannotAnswer v =
     (case v of
        JsonReply \<Rightarrow> ''I'' @ [CHR 0x27] @ ''m sorry, I cannot answer that question with the available data.''
      | FencedReply \<Rightarrow>
          ''I'' @ [CHR 0x27] @
          ''m sorry, I cannot answer that question with the available data or derived metrics.'')"

definition noResults :: string where
  "noResults = ''The query executed successfully but returned no results.''"

definition chartWarning :: string where
  "chartWarning =
     ''AI suggested a visualization, but the data columns for it were not found. '' @
     ''Try a different question or examine your data.''"

definition unexpectedError :: "version \<Rightarrow> string \<Rightarrow> string" where
  "unexpectedError v msg =
     (case v of
        JsonReply \<Rightarrow> ''An unexpected error occurred: '' @ msg
      | FencedReply \<Rightarrow> ''An unexpected error occurred during AI processing: '' @ msg)"

text \<open>
  \<open>typeText(text, setter)\<close> sets the answer to the empty string and starts a timer. At each
  tick, while the counter \<open>i\<close> is below the length of the text, the callback gives the
  setter the updater \<open>prev => prev + text.charAt(i)\<close> and then advances \<open>i\<close>; after that it
  stops the timer. So the setter is called once for each index \<open>k\<close> below the length, with
  \<open>i = k\<close>. The updater reads \<open>i\<close> when it runs: it appends the character at
  \<open>k + updaterLag k\<close>, and \<open>charAt\<close> gives the empty string past the end. React runs the
  updaters in the order of the calls. \<open>typedText\<close> is the answer once the timer has stopped;
  \<open>typeText\<close> records the call and leaves the state in which the typing has ended.
\<close>

definition charAt :: "string \<Rightarrow> nat \<Rightarrow> string" where
  "charAt text i = (if i < length text then [text ! i] else [])"

definition typedText :: "(nat \<Rightarrow> nat) \<Rightarrow> string \<Rightarrow> string" where
  "typedText lag text = concat (map (\<lambda>k. charAt text (k + lag k)) [0 ..< length text])"

definition typeText :: "env \<Rightarrow> string \<Rightarrow> app_state \<Rightarrow> app_state" where
  "typeText e text s =
     s\<lparr>answer := typedText (updaterLag e) text, effects := effects s @ [StartTyping text]\<rparr>"

text \<open>
  The SQL text taken from the first reply: \<open>Stop\<close> is an error message set before an early
  return, \<open>Throw\<close> an exception that reaches the outer handler, \<open>Sql\<close> the value of
  \<open>sqlQuery\<close>, which is \<open>None\<close> when the parsed object has no string \<open>sql_query\<close>.
\<close>

datatype extraction = Stop string | Throw string | Sql "string option"

definition extractSql :: "version \<Rightarrow> env \<Rightarrow> reply \<Rightarrow> extraction" where
  "extractSql v e r =
     (case r of
        FetchThrows msg \<Rightarrow> Throw msg
      | Body None \<Rightarrow> Stop ''Failed to get SQL query from AI. Please try again.''
      | Body (Some text) \<Rightarrow>
          (case v of
             JsonReply \<Rightarrow>
               (case jsonParseSql e text of
                  Inl perr \<Rightarrow>
                    Stop (''AI returned invalid JSON for SQL: '' @ text @ ''. Error: '' @ perr)
                | Inr q \<Rightarrow> Sql q)
           | FencedReply \<Rightarrow>
               (case matchSqlBlock text of
                  Some (c # cs) \<Rightarrow> Sql (Some (trim (c # cs)))
                | _ \<Rightarrow>
                    Stop (''AI did not return a valid SQL code block. Raw response: '' @
                          take 200 text @ ''...''))))"

definition isUnanswerable :: "version \<Rightarrow> string \<Rightarrow> bool" where
  "isUnanswerable v sqlQuery =
     (case v of
        JsonReply \<Rightarrow> includesStr (toUpperCase sqlQuery) ''N/A''
      | FencedReply \<Rightarrow>
          includesStr (toUpperCase sqlQuery) ''-- N/A'' \<or> includesStr (toUpperCase sqlQuery) ''N/A'')"

text \<open>
  Row objects. \<open>obj[col] = row[i]\<close> stores an own property, reading past the end of the row
  gives \<open>undefined\<close>; \<open>row[name]\<close> reads an own property, else a member inherited from
  \<open>Object.prototype\<close>, else \<open>undefined\<close>. Assigning to the name \<open>__proto__\<close> sets the
  prototype of the object instead of storing a property: a result with a column of that
  name is outside this model, and the theorem on charts excludes it.
\<close>

definition objectPrototypeKeys :: "string list" where
  "objectPrototypeKeys =
     [''constructor'', ''hasOwnProperty'', ''isPrototypeOf'', ''propertyIsEnumerable'',
      ''toLocaleString'', ''toString'', ''valueOf'', ''__proto__'', ''__defineGetter__'',
      ''__defineSetter__'', ''__lookupGetter__'', ''__lookupSetter__'']"

fun setProp :: "(string \<times> jsval) list \<Rightarrow> string \<Rightarrow> jsval \<Rightarrow> (string \<times> jsval) list" where
  "setProp [] k v = [(k, v)]"
| "setProp ((k', v') # obj) k v = (if k' = k then (k, v) # obj else (k', v') # setProp obj k v)"

definition getProp :: "(string \<times> jsval) list \<Rightarrow> string \<Rightarrow> jsval" where
  "getProp obj k =
     (case map_of obj k of
        Some v \<Rightarrow> v
      | None \<Rightarrow> if k \<in> set objectPrototypeKeys then JObject else JUndefined)"

definition nthOrUndefined :: "jsval list \<Rightarrow> nat \<Rightarrow> jsval" where
  "nthOrUndefined row i = (if i < length row then row ! i else JUndefined)"

definition rowObject :: "string list \<Rightarrow> jsval list \<Rightarrow> (string \<times> jsval) list" where
  "rowObject columns row =
     fold (\<lambda>(col, i) obj. setProp obj col (nthOrUndefined row i))
       (zip columns [0 ..< length columns]) []"

definition truthy :: "string option \<Rightarrow> bool" where
  "truthy x = (\<not> falsy x)"

definition present :: "jsval \<Rightarrow> bool" where
  "present x = (x \<noteq> JUndefined \<and> x \<noteq> JNull)"

text \<open>
  The handling of the parsed second reply: the answer is typed first, then the suggested
  chart is built or refused.
\<close>

definition chartConsoleWarning :: "version \<Rightarrow> string" where
  "chartConsoleWarning v =
     (case v of JsonReply \<Rightarrow> ''AI'' | FencedReply \<Rightarrow> ''LLM'') @
     '' suggested visualization with invalid or missing columns after query. '' @
     ''Chart not rendered.''"

definition presentAnswer ::
  "version \<Rightarrow> env \<Rightarrow> parsed_final \<Rightarrow> (string \<times> jsval) list list \<Rightarrow> app_state \<Rightarrow>
   app_state" where
  "presentAnswer v e parsedFinal queryResults s =
     (let s1 = typeText e (answerText parsedFinal) s in
      case visualizationOf parsedFinal of
        None \<Rightarrow> s1
      | Some vis \<Rightarrow>
          if truthy (chart_type vis) \<and> truthy (labels vis) \<and> truthy (vals vis) then
            (let chartLabelsCol = textOf (labels vis);
                 chartValuesCol = textOf (vals vis);
                 ls = map (\<lambda>row. getProp row chartLabelsCol) queryResults;
                 vs = map (\<lambda>row. getProp row chartValuesCol) queryResults
             in if list_all present ls \<and> list_all present vs then
                  s1\<lparr>chartType := chart_type vis,
                     chartData := Some \<lparr>chartLabels = ls,
                       datasetLabel = chartValuesCol @ '' by '' @ chartLabelsCol,
                       chartValues = vs\<rparr>\<rparr>
                else
                  s1\<lparr>effects := effects s1 @ [ConsoleWarn (chartConsoleWarning v)],
                     error := chartWarning, chartData := None\<rparr>)
          else s1)"

definition unreadable :: "version \<Rightarrow> string \<Rightarrow> string" where
  "unreadable v perr =
     (case v of
        JsonReply \<Rightarrow> ''AI returned an unreadable response. Error: '' @ perr
      | FencedReply \<Rightarrow>
          ''AI returned an unreadable response. It might be generating too much text. Error: ''
          @ perr)"

text \<open>
  \<open>askQuestion\<close>, given the replies the two requests would receive. Every path that got
  past the four guards ends with \<open>isLoading\<close> false. The effects record the two requests,
  the query, the call of \<open>typeText\<close> and the console warning; the calls of \<open>console.log\<close>
  and \<open>console.error\<close> of the second version are left out.
\<close>

definition askQuestion :: "version \<Rightarrow> env \<Rightarrow> reply \<Rightarrow> reply \<Rightarrow> app_state \<Rightarrow> app_state" where
  "askQuestion v e reply1 reply2 s =
     (if apiKey s = [] then s\<lparr>error := ''Please enter your Gemini API Key.''\<rparr>
      else if db s = None then s\<lparr>error := ''Database not initialized.''\<rparr>
      else if \<not> isDatabaseReady s
        then s\<lparr>error := ''Please load the datasets into the database first.''\<rparr>
      else if trim (question s) = [] then s\<lparr>error := ''Please enter a question.''\<rparr>
      else
        (let s0 = s\<lparr>isLoading := True, answer := [], error := [], chartData := None,
                     chartType := None\<rparr>;
             s1 = s0\<lparr>effects := effects s0 @ [Fetch SqlRequest]\<rparr>
         in case extractSql v e reply1 of
              Throw msg \<Rightarrow> s1\<lparr>error := unexpectedError v msg, isLoading := False\<rparr>
            | Stop msg \<Rightarrow> s1\<lparr>error := msg, isLoading := False\<rparr>
            | Sql None \<Rightarrow>
                s1\<lparr>error := unexpectedError v (typeErrorMessage e), isLoading := False\<rparr>
            | Sql (Some sqlQuery) \<Rightarrow>
                if isUnanswerable v sqlQuery
                then (typeText e (cannotAnswer v) s1)\<lparr>isLoading := False\<rparr>
                else
                  (let s2 = s1\<lparr>effects := effects s1 @ [Query sqlQuery]\<rparr> in
                   case execQuery e sqlQuery of
                     ExecThrows msg \<Rightarrow>
                       s2\<lparr>error := ''SQL execution error: '' @ msg @ ''. Generated SQL: '' @
                                    sqlQuery,
                          isLoading := False\<rparr>
                   | ExecReturns [] \<Rightarrow> (typeText e noResults s2)\<lparr>isLoading := False\<rparr>
                   | ExecReturns ((columns, rows) # _) \<Rightarrow>
                       (let queryResults = map (rowObject columns) rows;
                            s3 = s2\<lparr>effects := effects s2 @ [Fetch AnswerRequest]\<rparr>
                        in case reply2 of
                             FetchThrows msg \<Rightarrow>
                               s3\<lparr>error := unexpectedError v msg, isLoading := False\<rparr>
                           | Body None \<Rightarrow>
                               s3\<lparr>error := ''Failed to get a response from AI. Please try again.'',
                                  isLoading := False\<rparr>
                           | Body (Some jsonText) \<Rightarrow>
                               (case jsonParseFinal e jsonText of
                                  Inl perr \<Rightarrow>
                                    s3\<lparr>error := unreadable v perr, isLoading := False\<rparr>
                                | Inr parsedFinal \<Rightarrow>
                                    (presentAnswer v e parsedFinal queryResults s3)
                                      \<lparr>isLoading := False\<rparr>)))))"

section \<open>A sample environment\<close>

text \<open>
  The examples below run the definitions in one concrete environment. Its builtins read
  unsigned decimal integers (\<open>parseFloat\<close> the leading digits, \<open>toNumber\<close> the whole trimmed
  string, the empty string being 0); its CSV parser splits lines at line feeds and
  fields at commas, skips empty lines and reports records with too few or too many fields;
  its engine prepares the statement that names all the columns of a table in their
  declared order, with or without the column \<open>rowid\<close> after them (the key SQLite gives
  every row of such a table), read without regard to the case of the letters as SQLite
  reads names, and refuses a row whose first two values (the primary key of each table)
  are those of a stored row; it stores a whole number in a text column as its decimal
  text; its query and JSON results are listed for the texts the examples use. Its React
  runs the first updater of a typing at once and every later one when it renders, after
  the counter has advanced.
\<close>

definition isDigit :: "char \<Rightarrow> bool" where
  "isDigit c \<longleftrightarrow> c \<in> set ''0123456789''"

definition digitValue :: "char \<Rightarrow> int" where
  "digitValue c =
     (case map_of (zip ''0123456789'' [0, 1, 2, 3, 4, 5, 6, 7, 8, 9]) c of
        Some n \<Rightarrow> n
      | None \<Rightarrow> 0)"

definition decimalValue :: "string \<Rightarrow> int" where
  "decimalValue ds = foldl (\<lambda>n c. 10 * n + digitValue c) 0 ds"

definition sampleParseFloat :: "string \<Rightarrow> jsnum" where
  "sampleParseFloat s =
     (let ds = takeWhile isDigit (dropWhile isWhiteSpace s)
      in if ds = [] then NaN else Num (of_int (decimalValue ds)))"

definition sampleToNumber :: "string \<Rightarrow> jsnum" where
  "sampleToNumber s =
     (let t = trim s
      in if t = [] then Num 0
         else if list_all isDigit t then Num (of_int (decimalValue t))
         else NaN)"

fun splitOn :: "char \<Rightarrow> string \<Rightarrow> string list" where
  "splitOn sep [] = [[]]"
| "splitOn sep (c # cs) =
     (if c = sep then [] # splitOn sep cs
      else (case splitOn sep cs of [] \<Rightarrow> [[c]] | w # ws \<Rightarrow> (c # w) # ws))"

definition samplePapa :: "string \<Rightarrow> papa_outcome" where
  "samplePapa csv =
     (case filter (\<lambda>l. l \<noteq> []) (splitOn LF csv) of
        [] \<Rightarrow> PapaComplete \<lparr>errors = [], data = []\<rparr>
      | header # lines \<Rightarrow>
          (let cols = splitOn (CHR '','') header;
               recs = map (splitOn (CHR '','')) lines
           in PapaComplete
                \<lparr>errors = concat (map (\<lambda>r.
                     if length r < length cols then [''Too few fields'']
                     else if length cols < length r then [''Too many fields'']
                     else []) recs),
                 data = map (\<lambda>r. zip cols (map CString r)) recs\<rparr>))"

definition fullInsert :: "table_schema \<Rightarrow> string" where
  "fullInsert sch = insertSql (tableName sch) (map fst (tableColumns sch))"

fun sameText :: "string \<Rightarrow> string \<Rightarrow> bool" where
  "sameText [] [] = True"
| "sameText (c # cs) (d # ds) =
     (if c = d then sameText cs ds
      else if upperChar c = upperChar d then sameText cs ds
      else False)"
| "sameText _ _ = False"

definition rowidInsert :: "table_schema \<Rightarrow> string" where
  "rowidInsert sch = insertSql (tableName sch) (map fst (tableColumns sch) @ [''rowid''])"

definition insertsInto :: "string \<Rightarrow> table_schema \<Rightarrow> bool" where
  "insertsInto sql sch = (sameText (fullInsert sch) sql \<or> sameText (rowidInsert sch) sql)"

definition samplePrepareError :: "string \<Rightarrow> string option" where
  "samplePrepareError sql =
     (if list_ex (insertsInto sql) TABLE_SCHEMAS then None else Some ''no such column'')"

definition sampleRunError ::
  "string \<Rightarrow> (string \<Rightarrow> sqlval list list) \<Rightarrow> sqlval list \<Rightarrow> string option" where
  "sampleRunError sql tabs bound =
     (case find (insertsInto sql) TABLE_SCHEMAS of
        None \<Rightarrow> Some ''no such table''
      | Some sch \<Rightarrow>
          if list_ex (\<lambda>r. take 2 r = take 2 bound) (tabs (tableName sch))
          then Some ''UNIQUE constraint failed''
          else None)"

definition salesQuery :: string where
  "salesQuery = ''SELECT item_id, total_sales FROM product_total_sales_metrics;''"

definition emptyQuery :: string where
  "emptyQuery = ''SELECT item_id FROM product_total_sales_metrics WHERE total_sales < 0;''"

definition sampleExecQuery :: "string \<Rightarrow> exec_outcome" where
  "sampleExecQuery sql =
     (if sql = salesQuery then
        ExecReturns [([''item_id'', ''total_sales''],
                      [[JString ''A1'', JNumber (Num 10)], [JString ''B2'', JNumber (Num 25)]])]
      else if sql = emptyQuery then ExecReturns []
      else ExecThrows ''syntax error'')"

abbreviation dq :: string where
  "dq \<equiv> [CHR 0x22]"

definition jsonSql :: "string \<Rightarrow> string" where
  "jsonSql q = ''{'' @ dq @ ''sql_query'' @ dq @ '': '' @ dq @ q @ dq @ ''}''"

definition sampleJsonParseSql :: "string \<Rightarrow> string + string option" where
  "sampleJsonParseSql text =
     (let pre = ''{'' @ dq @ ''sql_query'' @ dq @ '': '' @ dq; post = dq @ ''}'' in
      if text = ''{}'' then Inr None
      else if startsWith text pre \<and> startsWith (rev text) (rev post) \<and>
              length pre + length post \<le> length text
      then Inr (Some (take (length text - length pre - length post) (drop (length pre) text)))
      else Inl ''Unexpected token'')"

definition jsonFinal :: "string \<Rightarrow> string \<Rightarrow> string \<Rightarrow> string \<Rightarrow> string" where
  "jsonFinal a k l v =
     ''{'' @ dq @ ''answer'' @ dq @ '': '' @ dq @ a @ dq @ '', '' @ dq @ ''visualization'' @ dq @
     '': {'' @ dq @ ''chart_type'' @ dq @ '': '' @ k @ '', '' @ dq @ ''labels'' @ dq @ '': '' @ l @
     '', '' @ dq @ ''values'' @ dq @ '': '' @ v @ ''}}''"

definition replyBarChart :: string where
  "replyBarChart =
     jsonFinal ''B2 sold most.'' (dq @ ''bar'' @ dq) (dq @ ''item_id'' @ dq)
       (dq @ ''total_sales'' @ dq)"

definition replyNoChart :: string where
  "replyNoChart = jsonFinal ''B2 sold most.'' ''null'' ''null'' ''null''"

definition replyBadColumns :: string where
  "replyBadColumns =
     jsonFinal ''B2 sold most.'' (dq @ ''bar'' @ dq) (dq @ ''product'' @ dq)
       (dq @ ''total_sales'' @ dq)"

definition sampleJsonParseFinal :: "string \<Rightarrow> string + parsed_final" where
  "sampleJsonParseFinal text =
     (if text = replyBarChart then
        Inr \<lparr>answerText = ''B2 sold most.'',
             visualizationOf = Some \<lparr>chart_type = Some ''bar'', labels = Some ''item_id'',
               vals = Some ''total_sales''\<rparr>\<rparr>
      else if text = replyNoChart then
        Inr \<lparr>answerText = ''B2 sold most.'',
             visualizationOf = Some \<lparr>chart_type = None, labels = None, vals = None\<rparr>\<rparr>
      else if text = replyBadColumns then
        Inr \<lparr>answerText = ''B2 sold most.'',
             visualizationOf = Some \<lparr>chart_type = Some ''bar'', labels = Some ''product'',
               vals = Some ''total_sales''\<rparr>\<rparr>
      else Inl ''Unexpected end of JSON input'')"

definition digitChar :: "int \<Rightarrow> char" where
  "digitChar n =
     (case map_of (zip [0, 1, 2, 3, 4, 5, 6, 7, 8, 9] ''0123456789'') n of
        Some c \<Rightarrow> c
      | None \<Rightarrow> CHR ''0'')"

function decimalText :: "int \<Rightarrow> string" where
  "decimalText n =
     (if n < 10 then [digitChar n] else decimalText (n div 10) @ [digitChar (n mod 10)])"
  by pat_completeness auto
termination
  by (relation "measure nat") auto

definition sampleNumberText :: "jsnum \<Rightarrow> string" where
  "sampleNumberText n =
     (case n of
        Num q \<Rightarrow>
          (let (a, b) = quotient_of q in
           if b = 1 then (if a < 0 then ''-'' @ decimalText (- a) else decimalText a)
           else decimalText a @ ''/'' @ decimalText b)
      | _ \<Rightarrow> [])"

definition sampleNumericText :: "string \<Rightarrow> jsnum option" where
  "sampleNumericText s =
     (if s \<noteq> [] \<and> list_all isDigit s then Some (Num (of_int (decimalValue s))) else None)"

definition sampleLag :: "nat \<Rightarrow> nat" where
  "sampleLag k = (if k = 0 then 0 else 1)"

definition sampleEnv :: env where
  "sampleEnv =
     \<lparr>parseFloat = sampleParseFloat, toNumber = sampleToNumber, papaParse = samplePapa,
      prepareError = samplePrepareError, runError = sampleRunError,
      execQuery = sampleExecQuery, jsonParseSql = sampleJsonParseSql,
      jsonParseFinal = sampleJsonParseFinal,
      typeErrorMessage = ''Cannot read properties of undefined'',
      numberText = sampleNumberText, numericText = sampleNumericText,
      updaterLag = sampleLag\<rparr>"

definition emptyDatabase :: database where
  "emptyDatabase = \<lparr>tables = (\<lambda>_. []), snapshot = None\<rparr>"

definition initialState :: app_state where
  "initialState =
     \<lparr>apiKey = [], db = Some emptyDatabase, productAdSalesCsv = None,
      productTotalSalesCsv = None, productEligibilityCsv = None, question = [], answer = [],
      isLoading = False, dbStatus = ''Database initialized. Please upload CSV files.'',
      error = [], isDatabaseReady = False, chartData = None, chartType = None,
      effects = []\<rparr>"

definition adSalesCsv :: string where
  "adSalesCsv =
     ''date,item_id,ad_sales,impressions,ad_spend,clicks,units_sold'' @ [LF] @
     ''2025-06-01,A1,12,100,3,7,1'' @ [LF]"

definition totalSalesCsv :: string where
  "totalSalesCsv =
     ''date,item_id,total_sales,total_units_ordered'' @ [LF] @
     ''2025-06-01,A1,10,1'' @ [LF] @
     ''2025-06-01,B2,25,2'' @ [LF]"

definition eligibilityCsv :: string where
  "eligibilityCsv =
     ''eligibility_datetime_utc,item_id,eligibility,message'' @ [LF] @
     ''2025-06-01,A1,FALSE,True'' @ [LF] @
     ''2025-06-01,B2,true,'' @ [LF]"

definition headerOnlyCsv :: string where
  "headerOnlyCsv = ''date,item_id,total_sales,total_units_ordered'' @ [LF]"

definition duplicateKeyCsv :: string where
  "duplicateKeyCsv =
     ''date,item_id,total_sales,total_units_ordered'' @ [LF] @
     ''2025-06-01,A1,10,1'' @ [LF] @
     ''2025-06-01,A1,11,2'' @ [LF]"

definition extraColumnCsv :: string where
  "extraColumnCsv =
     ''date,item_id,total_sales,total_units_ordered,region'' @ [LF] @
     ''2025-06-01,A1,10,1,EU'' @ [LF]"

definition upperCaseHeaderCsv :: string where
  "upperCaseHeaderCsv =
     ''DATE,item_id,total_sales,total_units_ordered'' @ [LF] @
     ''2025-06-01,A1,10,1'' @ [LF]"

definition rowidHeaderCsv :: string where
  "rowidHeaderCsv =
     ''date,item_id,total_sales,total_units_ordered,rowid'' @ [LF] @
     ''2025-06-01,A1,10,1,7'' @ [LF]"

definition sampleUploads :: app_state where
  "sampleUploads =
     initialState\<lparr>productAdSalesCsv := Some adSalesCsv, productTotalSalesCsv := Some totalSalesCsv,
       productEligibilityCsv := Some eligibilityCsv\<rparr>"

definition sampleReady :: app_state where
  "sampleReady =
     (loadDataIntoDB sampleEnv sampleUploads)
       \<lparr>apiKey := ''key'', question := ''Which item sold most?''\<rparr>"

definition fencedSql :: "string \<Rightarrow> string" where
  "fencedSql q = fence @ ''sql'' @ [LF] @ q @ [LF] @ fence"

section \<open>Properties of the ingestion\<close>

lemma insertRows_snapshot:
  "insertRows e t sql rows (d, evs) = (r, d', evs') \<Longrightarrow> snapshot d' = snapshot d"
  by (induction rows arbitrary: d evs)
     (auto simp: Let_def appendRow_def split: option.splits)

lemma insertRows_ok:
  "insertRows e t sql rows (d, evs) = (Inr u, d', evs') \<Longrightarrow>
     tables d' = (tables d)(t := tables d t @ map (coerceRow e) rows) \<and>
     evs' = evs @ map (\<lambda>row. Run t (coerceRow e row)) rows"
proof (induction rows arbitrary: d evs)
  case Nil
  then show ?case by simp
next
  case (Cons row rows)
  from Cons.prems obtain
    rec: "insertRows e t sql rows (appendRow t (coerceRow e row) d, evs @ [Run t (coerceRow e row)])
            = (Inr u, d', evs')"
    by (auto simp: Let_def split: option.splits)
  from Cons.IH [OF rec] show ?case
    by (auto simp: appendRow_def fun_eq_iff)
qed

lemma insertRows_events:
  "insertRows e t sql rows (d, evs) = (r, d', evs') \<Longrightarrow>
     \<exists>bs. evs' = evs @ map (Run t) bs \<and> tables d' t = tables d t @ (case r of Inr _ \<Rightarrow> bs | Inl _ \<Rightarrow> butlast bs)
       \<and> (case r of Inr _ \<Rightarrow> True | Inl _ \<Rightarrow> bs \<noteq> [])"
proof (induction rows arbitrary: d evs)
  case Nil
  then show ?case by auto
next
  case (Cons row rows)
  show ?case
  proof (cases "runError e sql (tables d) (coerceRow e row)")
    case (Some msg)
    with Cons.prems have "r = Inl msg" "d' = d" "evs' = evs @ [Run t (coerceRow e row)]"
      by (auto simp: Let_def)
    then show ?thesis
      by (intro exI [of _ "[coerceRow e row]"]) simp
  next
    case None
    with Cons.prems have
      rec: "insertRows e t sql rows (appendRow t (coerceRow e row) d, evs @ [Run t (coerceRow e row)])
              = (r, d', evs')"
      by (auto simp: Let_def)
    from Cons.IH [OF rec] obtain bs where
      bs: "evs' = (evs @ [Run t (coerceRow e row)]) @ map (Run t) bs"
          "tables d' t = tables (appendRow t (coerceRow e row) d) t @
             (case r of Inr _ \<Rightarrow> bs | Inl _ \<Rightarrow> butlast bs)"
          "(case r of Inr _ \<Rightarrow> True | Inl _ \<Rightarrow> bs \<noteq> [])"
      by blast
    then show ?thesis
      by (intro exI [of _ "coerceRow e row # bs"])
         (auto simp: appendRow_def split: sum.splits)
  qed
qed


lemma rollback_restores:
  "snapshot d = None \<Longrightarrow> snapshot d2 = Some (tables d) \<Longrightarrow> execRollback d2 = d"
  by (cases d, cases d2) (simp add: execRollback_def)

lemma begin_closed:
  "snapshot d = None \<Longrightarrow> execBegin d = Inr (d\<lparr>snapshot := Some (tables d)\<rparr>)"
  by (simp add: execBegin_def)

lemma parseAndInsert_cases:
  assumes closed: "snapshot d = None"
    and run: "parseAndInsert e csv t (d, evs) = (r, d', evs')"
  shows
    "(\<exists>msg. papaParse e csv = PapaError msg \<and> r = Inl msg \<and> d' = d \<and> evs' = evs @ [Reject t msg])
     \<or> (\<exists>res err more. papaParse e csv = PapaComplete res \<and> errors res = err # more \<and>
           r = Inl (parseFailure t err) \<and> d' = d \<and>
           evs' = evs @ [Reject t (parseFailure t err)])
     \<or> (papaParse e csv = PapaComplete \<lparr>errors = [], data = []\<rparr> \<and> r = Inr () \<and> d' = d \<and>
           evs' = evs @ [Warn t (''No data found in '' @ t @ '' CSV.''), Resolve t])
     \<or> (\<exists>first rest detail. papaParse e csv = PapaComplete \<lparr>errors = [], data = first # rest\<rparr> \<and>
           prepareError e (insertSql t (objectKeys first)) = Some detail \<and>
           r = Inl (insertFailure t detail) \<and> d' = d \<and>
           evs' = evs @ [Begin t, Prepare t (insertSql t (objectKeys first)), Rollback t,
                         Reject t (insertFailure t detail)])
     \<or> (\<exists>first rest detail bs. papaParse e csv = PapaComplete \<lparr>errors = [], data = first # rest\<rparr> \<and>
           prepareError e (insertSql t (objectKeys first)) = None \<and> bs \<noteq> [] \<and>
           r = Inl (insertFailure t detail) \<and> d' = d \<and>
           evs' = evs @ [Begin t, Prepare t (insertSql t (objectKeys first))] @ map (Run t) bs @
                    [Rollback t, Free t, Reject t (insertFailure t detail)])
     \<or> (\<exists>first rest. papaParse e csv = PapaComplete \<lparr>errors = [], data = first # rest\<rparr> \<and>
           prepareError e (insertSql t (objectKeys first)) = None \<and> r = Inr () \<and>
           d' = d\<lparr>tables := (tables d)(t := tables d t @ map (coerceRow e) (first # rest))\<rparr> \<and>
           evs' = evs @ [Begin t, Prepare t (insertSql t (objectKeys first))] @
                    map (Run t) (map (coerceRow e) (first # rest)) @
                    [Commit t, Free t, Resolve t])"
proof (cases "papaParse e csv")
  case (PapaError msg)
  with run show ?thesis by (simp add: parseAndInsert_def)
next
  case (PapaComplete res)
  show ?thesis
  proof (cases "errors res")
    case (Cons err more)
    with PapaComplete run show ?thesis
      by (simp add: parseAndInsert_def Let_def)
  next
    case Nil
    note noerr = Nil
    show ?thesis
    proof (cases "data res")
      case Nil
      with noerr have "res = \<lparr>errors = [], data = []\<rparr>" by (cases res) simp
      with PapaComplete run show ?thesis by (simp add: parseAndInsert_def)
    next
      case (Cons first rest)
      with noerr have res: "res = \<lparr>errors = [], data = first # rest\<rparr>" by (cases res) simp
      let ?sql = "insertSql t (objectKeys first)"
      let ?d1 = "d\<lparr>snapshot := Some (tables d)\<rparr>"
      show ?thesis
      proof (cases "prepareError e ?sql")
        case (Some detail)
        have "execRollback ?d1 = d" using closed by (intro rollback_restores) simp_all
        with Some PapaComplete res run closed show ?thesis
          by (simp add: parseAndInsert_def Let_def begin_closed)
      next
        case None
        obtain r2 d2 evs2 where
          rows: "insertRows e t ?sql (first # rest) (?d1, evs @ [Begin t, Prepare t ?sql])
                   = (r2, d2, evs2)"
          by (metis prod_cases3)
        have snap2: "snapshot d2 = Some (tables d)"
          using insertRows_snapshot [OF rows] by simp
        show ?thesis
        proof (cases r2)
          case (Inr u)
          from insertRows_ok [OF rows [unfolded Inr]] have
            t2: "tables d2 = (tables d)(t := tables d t @ map (coerceRow e) (first # rest))"
            and e2: "evs2 = (evs @ [Begin t, Prepare t ?sql]) @
                       map (\<lambda>row. Run t (coerceRow e row)) (first # rest)"
            by simp_all
          have "execCommit d2 = d\<lparr>tables := (tables d)(t := tables d t @ map (coerceRow e) (first # rest))\<rparr>"
            using t2 closed by (cases d, cases d2) (simp add: execCommit_def)
          with None PapaComplete res run closed rows Inr e2 show ?thesis
            by (simp add: parseAndInsert_def Let_def begin_closed comp_def del: insertRows.simps)
        next
          case (Inl detail)
          from insertRows_events [OF rows] Inl obtain bs where
            bs: "evs2 = (evs @ [Begin t, Prepare t ?sql]) @ map (Run t) bs" "bs \<noteq> []"
            by auto
          have "execRollback d2 = d" using closed snap2 by (rule rollback_restores)
          with None PapaComplete res run closed rows Inl bs have
            "r = Inl (insertFailure t detail) \<and> d' = d \<and>
             evs' = evs @ [Begin t, Prepare t ?sql] @ map (Run t) bs @
                      [Rollback t, Free t, Reject t (insertFailure t detail)]"
            by (simp add: parseAndInsert_def Let_def begin_closed del: insertRows.simps)
          with None PapaComplete res bs(2) show ?thesis by blast
        qed
      qed
    qed
  qed
qed


subsection \<open>Substrings of the generated statement\<close>

lemma startsWith_append: "startsWith (p @ s) p"
  by (induction p) simp_all

lemma startsWith_extend: "startsWith s p \<Longrightarrow> startsWith (s @ b) p"
  by (induction s p rule: startsWith.induct) simp_all

lemma includesStr_prefix: "includesStr (p @ s) p"
proof (cases "p @ s")
  case Nil
  then show ?thesis by simp
next
  case (Cons c cs)
  have "startsWith (p @ s) p" by (rule startsWith_append)
  with Cons show ?thesis by simp
qed

lemma includesStr_append_right: "includesStr s p \<Longrightarrow> includesStr (a @ s) p"
  by (induction a) simp_all

lemma includesStr_append_left: "includesStr s p \<Longrightarrow> includesStr (s @ b) p"
proof (induction s)
  case Nil
  then show ?case by (cases b) simp_all
next
  case (Cons c cs)
  then show ?case using startsWith_extend [of "c # cs" p b] by auto
qed

lemma includesStr_joinWith:
  "c \<in> set ks \<Longrightarrow> includesStr (joinWith sep (map q ks)) (q c)"
proof (induction ks)
  case Nil
  then show ?case by simp
next
  case (Cons k ks)
  show ?case
  proof (cases ks)
    case Nil
    with Cons.prems have "c = k" by simp
    with Nil show ?thesis using includesStr_prefix [of "q k" "[]"] by simp
  next
    case (Cons k2 ks2)
    then have unfold: "joinWith sep (map q (k # ks)) = q k @ sep @ joinWith sep (map q ks)"
      by simp
    show ?thesis
    proof (cases "c = k")
      case True
      then show ?thesis unfolding unfold by (simp only: includesStr_prefix)
    next
      case False
      with Cons.prems have "c \<in> set ks" by simp
      then have "includesStr (joinWith sep (map q ks)) (q c)" by (rule Cons.IH)
      then show ?thesis unfolding unfold by (intro includesStr_append_right)
    qed
  qed
qed

lemma insertSql_names_column:
  "c \<in> set ks \<Longrightarrow> includesStr (insertSql t ks) ([CHR 0x22] @ c @ [CHR 0x22])"
  unfolding insertSql_def
  by (intro includesStr_append_right includesStr_append_left
        includesStr_joinWith [where q = "\<lambda>col. [CHR 0x22] @ col @ [CHR 0x22]"])


subsection \<open>The sample database\<close>

lemma sample_closed: "snapshot emptyDatabase = None"
  by (simp add: emptyDatabase_def)

section \<open>Coercion of the values of a record\<close>

text \<open>
  Claim C1 says that the boolean literals are mapped to 1 and 0 only where the declared
  type of the target column is boolean, so that the text \<open>TRUE\<close> in a column of another
  type stays a text. The code does not look at the column: \<open>message\<close> is declared as a
  text column of \<open>product_eligibility\<close>, the specified coercion keeps \<open>TRUE\<close> there, and
  \<open>coerceValue\<close> binds the number 1.
\<close>

theorem text_TRUE_counterexample:
  "declaredType ''product_eligibility'' ''message'' = Some TypeText \<and>
   specCoerce sampleEnv TypeText (CString ''TRUE'') = SqlText ''TRUE'' \<and>
   coerceValue sampleEnv (CString ''TRUE'') = SqlNumber (Num 1) \<and>
   coerceValue sampleEnv (CString ''TRUE'') \<noteq> specCoerce sampleEnv TypeText (CString ''TRUE'')"
  by code_simp

text \<open>
  Claim C1, amended. Whatever the declared type of the column, a value is coerced in this
  order: a string that equals \<open>TRUE\<close> or \<open>FALSE\<close> when upper-cased is mapped to 1 or 0;
  else a string that is empty when trimmed is mapped to null; else a string for which
  \<open>parseFloat\<close> gives a number and \<open>isFinite\<close> holds is mapped to the number \<open>parseFloat\<close>
  gives; else the string stays a text. This is the specified coercion of a boolean
  column, applied to every column; for a string that is no boolean literal it is the
  specified coercion of any column. A null value stays null.
\<close>

theorem coercion_order:
  "coerceValue e v = specCoerce e TypeBoolean v \<and>
   coerceValue e CNull = SqlNull \<and>
   (toUpperCase s = ''TRUE'' \<longrightarrow> coerceValue e (CString s) = SqlNumber (Num 1)) \<and>
   (toUpperCase s = ''FALSE'' \<longrightarrow> coerceValue e (CString s) = SqlNumber (Num 0)) \<and>
   (toUpperCase s \<noteq> ''TRUE'' \<and> toUpperCase s \<noteq> ''FALSE'' \<longrightarrow>
      (trim s = [] \<longrightarrow> coerceValue e (CString s) = SqlNull) \<and>
      (trim s \<noteq> [] \<and> \<not> isNaN (parseFloat e s) \<and> isFinite e s \<longrightarrow>
         coerceValue e (CString s) = SqlNumber (parseFloat e s)) \<and>
      (trim s \<noteq> [] \<and> \<not> (\<not> isNaN (parseFloat e s) \<and> isFinite e s) \<longrightarrow>
         coerceValue e (CString s) = SqlText s) \<and>
      (\<forall>declared. coerceValue e (CString s) = specCoerce e declared (CString s)))"
  by (cases v) (auto simp: coerceValue_def specCoerce_def)

theorem coercion_order_witness:
  "coerceValue sampleEnv (CString ''true'') = SqlNumber (Num 1) \<and>
   coerceValue sampleEnv (CString ''False'') = SqlNumber (Num 0) \<and>
   coerceValue sampleEnv (CString ''  '') = SqlNull \<and>
   coerceValue sampleEnv (CString ''12'') = SqlNumber (Num 12) \<and>
   coerceValue sampleEnv (CString ''A1'') = SqlText ''A1'' \<and>
   coerceValue sampleEnv (CString ''A1'') = specCoerce sampleEnv TypeText (CString ''A1'')"
proof -
  have up: "toUpperCase ''true'' = ''TRUE''" "toUpperCase ''False'' = ''FALSE''"
    "toUpperCase ''  '' \<noteq> ''TRUE'' \<and> toUpperCase ''  '' \<noteq> ''FALSE''"
    "toUpperCase ''12'' \<noteq> ''TRUE'' \<and> toUpperCase ''12'' \<noteq> ''FALSE''"
    "toUpperCase ''A1'' \<noteq> ''TRUE'' \<and> toUpperCase ''A1'' \<noteq> ''FALSE''"
    by code_simp+
  have blank: "trim ''  '' = []" "trim ''12'' \<noteq> []" "trim ''A1'' \<noteq> []"
    by code_simp+
  have num: "\<not> isNaN (parseFloat sampleEnv ''12'') \<and> isFinite sampleEnv ''12''"
    "parseFloat sampleEnv ''12'' = Num 12"
    "\<not> (\<not> isNaN (parseFloat sampleEnv ''A1'') \<and> isFinite sampleEnv ''A1'')"
    by code_simp+
  show ?thesis
    using coercion_order [of sampleEnv CNull "''true''"]
      coercion_order [of sampleEnv CNull "''False''"]
      coercion_order [of sampleEnv CNull "''  ''"]
      coercion_order [of sampleEnv CNull "''12''"]
      coercion_order [of sampleEnv CNull "''A1''"] up blank num
    by simp
qed

section \<open>A dataset without records\<close>

text \<open>
  Claim C7. When the parser reports no error and no record for a CSV text, as it does for
  a header row alone, \<open>parseAndInsert\<close> logs the warning
  \<open>No data found in <table> CSV.\<close>, resolves, and returns the database as it was: no
  statement is executed and every table is unchanged.
\<close>

theorem header_only_noop:
  assumes "papaParse e csv = PapaComplete \<lparr>errors = [], data = []\<rparr>"
  shows "parseAndInsert e csv t (d, evs) =
           (Inr (), d, evs @ [Warn t (''No data found in '' @ t @ '' CSV.''), Resolve t])"
  using assms by (simp add: parseAndInsert_def)

theorem header_only_noop_witness:
  "papaParse sampleEnv headerOnlyCsv = PapaComplete \<lparr>errors = [], data = []\<rparr> \<and>
   parseAndInsert sampleEnv headerOnlyCsv ''product_total_sales_metrics'' (emptyDatabase, []) =
     (Inr (), emptyDatabase,
      [Warn ''product_total_sales_metrics'' ''No data found in product_total_sales_metrics CSV.'',
       Resolve ''product_total_sales_metrics''])"
proof -
  have h: "papaParse sampleEnv headerOnlyCsv = PapaComplete \<lparr>errors = [], data = []\<rparr>"
    by code_simp
  from header_only_noop [OF h, of "''product_total_sales_metrics''" emptyDatabase "[]"] h
  show ?thesis by simp
qed

section \<open>One pass over the three datasets\<close>

subsection \<open>Events of a pass\<close>



















section \<open>The ready flag\<close>




section \<open>Atomic ingestion of one dataset\<close>

subsection \<open>The engine's decisions on the records\<close>

lemma tablesAfter_0: "tablesAfter e t rows 0 tabs = tabs"
  by (simp add: tablesAfter_def)

lemma tablesAfter_Suc:
  "tablesAfter e t (row # rows) (Suc k) tabs =
     tablesAfter e t rows k (tabs(t := tabs t @ [coerceRow e row]))"
  by (simp add: tablesAfter_def fun_eq_iff)

lemma insertRows_accepted:
  assumes "\<forall>k < length rows.
      runError e sql (tablesAfter e t rows k (tables d)) (coerceRow e (rows ! k)) = None"
  shows "insertRows e t sql rows (d, evs) =
           (Inr (), d\<lparr>tables := tablesAfter e t rows (length rows) (tables d)\<rparr>,
            evs @ map (\<lambda>row. Run t (coerceRow e row)) rows)"
  using assms
proof (induction rows arbitrary: d evs)
  case Nil
  then show ?case by (simp add: tablesAfter_0)
next
  case (Cons row rows)
  from Cons.prems have first: "runError e sql (tables d) (coerceRow e row) = None"
    by (metis length_greater_0_conv list.discI nth_Cons_0 tablesAfter_0)
  have rest: "\<forall>k < length rows.
      runError e sql (tablesAfter e t rows k (tables (appendRow t (coerceRow e row) d)))
        (coerceRow e (rows ! k)) = None"
  proof (intro allI impI)
    fix k assume "k < length rows"
    then have "Suc k < length (row # rows)" by simp
    with Cons.prems have
      "runError e sql (tablesAfter e t (row # rows) (Suc k) (tables d))
         (coerceRow e ((row # rows) ! Suc k)) = None" by blast
    then show "runError e sql (tablesAfter e t rows k (tables (appendRow t (coerceRow e row) d)))
        (coerceRow e (rows ! k)) = None"
      by (simp add: tablesAfter_Suc appendRow_def)
  qed
  let ?b = "coerceRow e row"
  have step: "insertRows e t sql (row # rows) (d, evs) =
      insertRows e t sql rows (appendRow t ?b d, evs @ [Run t ?b])"
    using first by (simp add: Let_def)
  have tabs: "tablesAfter e t rows (length rows) (tables (appendRow t ?b d)) =
      tablesAfter e t (row # rows) (length (row # rows)) (tables d)"
    by (simp add: tablesAfter_Suc appendRow_def)
  have upd: "(appendRow t ?b d)\<lparr>tables := X\<rparr> = d\<lparr>tables := X\<rparr>" for X
    by (simp add: appendRow_def)
  show ?case unfolding step Cons.IH [OF rest] tabs upd by simp
qed

lemma insertRows_refused:
  assumes "k < length rows"
    and "\<forall>j < k. runError e sql (tablesAfter e t rows j (tables d)) (coerceRow e (rows ! j)) = None"
    and "runError e sql (tablesAfter e t rows k (tables d)) (coerceRow e (rows ! k)) = Some detail"
  shows "\<exists>d2 evs2. insertRows e t sql rows (d, evs) = (Inl detail, d2, evs2)"
  using assms
proof (induction rows arbitrary: d evs k)
  case Nil
  then show ?case by simp
next
  case (Cons row rows)
  show ?case
  proof (cases k)
    case 0
    with Cons.prems(3) have "runError e sql (tables d) (coerceRow e row) = Some detail"
      by (simp add: tablesAfter_0)
    then show ?thesis by simp
  next
    case (Suc k')
    with Cons.prems(2) have first: "runError e sql (tables d) (coerceRow e row) = None"
      by (metis nth_Cons_0 tablesAfter_0 zero_less_Suc)
    let ?d1 = "appendRow t (coerceRow e row) d"
    have k': "k' < length rows" using Cons.prems(1) Suc by simp
    have before: "\<forall>j < k'.
        runError e sql (tablesAfter e t rows j (tables ?d1)) (coerceRow e (rows ! j)) = None"
    proof (intro allI impI)
      fix j assume "j < k'"
      then have "Suc j < k" using Suc by simp
      with Cons.prems(2) have
        "runError e sql (tablesAfter e t (row # rows) (Suc j) (tables d))
           (coerceRow e ((row # rows) ! Suc j)) = None" by blast
      then show "runError e sql (tablesAfter e t rows j (tables ?d1)) (coerceRow e (rows ! j)) = None"
        by (simp add: tablesAfter_Suc appendRow_def)
    qed
    have at: "runError e sql (tablesAfter e t rows k' (tables ?d1)) (coerceRow e (rows ! k'))
        = Some detail"
      using Cons.prems(3) Suc by (simp add: tablesAfter_Suc appendRow_def)
    have step: "insertRows e t sql (row # rows) (d, evs) =
        insertRows e t sql rows (?d1, evs @ [Run t (coerceRow e row)])"
      using first by (simp add: Let_def)
    from Cons.IH [OF k' before at] show ?thesis unfolding step .
  qed
qed

subsection \<open>The three outcomes of a call that reached the engine\<close>

lemma parseAndInsert_prepare_refused:
  assumes closed: "snapshot d = None"
    and parsed: "papaParse e csv = PapaComplete \<lparr>errors = [], data = first # rest\<rparr>"
    and refused: "prepareError e (insertSql t (objectKeys first)) = Some detail"
  shows "parseAndInsert e csv t (d, evs) =
           (Inl (insertFailure t detail), d,
            evs @ [Begin t, Prepare t (insertSql t (objectKeys first)), Rollback t,
                   Reject t (insertFailure t detail)])"
proof -
  have "execRollback (d\<lparr>snapshot := Some (tables d)\<rparr>) = d"
    using closed by (intro rollback_restores) simp_all
  with closed parsed refused show ?thesis
    by (simp add: parseAndInsert_def Let_def begin_closed)
qed

lemma parseAndInsert_accepted:
  assumes closed: "snapshot d = None"
    and parsed: "papaParse e csv = PapaComplete \<lparr>errors = [], data = first # rest\<rparr>"
    and prepared: "prepareError e (insertSql t (objectKeys first)) = None"
    and accepted: "\<forall>k < length (first # rest).
        runError e (insertSql t (objectKeys first)) (tablesAfter e t (first # rest) k (tables d))
          (coerceRow e ((first # rest) ! k)) = None"
  shows "parseAndInsert e csv t (d, evs) =
           (Inr (), d\<lparr>tables := tablesAfter e t (first # rest) (length (first # rest)) (tables d)\<rparr>,
            evs @ [Begin t, Prepare t (insertSql t (objectKeys first))] @
              map (\<lambda>row. Run t (coerceRow e row)) (first # rest) @
              [Commit t, Free t, Resolve t])"
proof -
  let ?sql = "insertSql t (objectKeys first)"
  let ?d1 = "d\<lparr>snapshot := Some (tables d)\<rparr>"
  let ?T = "tablesAfter e t (first # rest) (length (first # rest)) (tables d)"
  from accepted have "\<forall>k < length (first # rest).
        runError e ?sql (tablesAfter e t (first # rest) k (tables ?d1))
          (coerceRow e ((first # rest) ! k)) = None" by simp
  from insertRows_accepted [OF this, of "evs @ [Begin t, Prepare t ?sql]"]
  have rows: "insertRows e t ?sql (first # rest) (?d1, evs @ [Begin t, Prepare t ?sql]) =
      (Inr (), ?d1\<lparr>tables := ?T\<rparr>,
       (evs @ [Begin t, Prepare t ?sql]) @ map (\<lambda>row. Run t (coerceRow e row)) (first # rest))"
    by simp
  have commit: "execCommit (d\<lparr>snapshot := Some (tables d), tables := T\<rparr>) = d\<lparr>tables := T\<rparr>"
    for T using closed by (cases d) (simp add: execCommit_def)
  have "parseAndInsert e csv t (d, evs) =
      (case insertRows e t ?sql (first # rest) (?d1, evs @ [Begin t, Prepare t ?sql]) of
         (Inr u, d3, evs3) \<Rightarrow> (Inr (), execCommit d3, evs3 @ [Commit t, Free t, Resolve t])
       | (Inl detail, d3, evs3) \<Rightarrow>
           (Inl (insertFailure t detail), execRollback d3,
            evs3 @ [Rollback t, Free t, Reject t (insertFailure t detail)]))"
    using closed parsed prepared
    by (simp add: parseAndInsert_def Let_def begin_closed del: insertRows.simps)
  also have "\<dots> = (Inr (), d\<lparr>tables := ?T\<rparr>,
            evs @ [Begin t, Prepare t (insertSql t (objectKeys first))] @
              map (\<lambda>row. Run t (coerceRow e row)) (first # rest) @
              [Commit t, Free t, Resolve t])"
    unfolding rows by (simp add: commit del: insertRows.simps)
  finally show ?thesis .
qed

lemma parseAndInsert_run_refused:
  assumes closed: "snapshot d = None"
    and parsed: "papaParse e csv = PapaComplete \<lparr>errors = [], data = first # rest\<rparr>"
    and prepared: "prepareError e (insertSql t (objectKeys first)) = None"
    and k: "k < length (first # rest)"
    and before: "\<forall>j < k.
        runError e (insertSql t (objectKeys first)) (tablesAfter e t (first # rest) j (tables d))
          (coerceRow e ((first # rest) ! j)) = None"
    and at: "runError e (insertSql t (objectKeys first)) (tablesAfter e t (first # rest) k (tables d))
          (coerceRow e ((first # rest) ! k)) = Some detail"
  shows "\<exists>evs2. parseAndInsert e csv t (d, evs) =
           (Inl (insertFailure t detail), d, evs2 @ [Rollback t, Free t, Reject t (insertFailure t detail)])"
proof -
  let ?sql = "insertSql t (objectKeys first)"
  let ?d1 = "d\<lparr>snapshot := Some (tables d)\<rparr>"
  from before have b: "\<forall>j < k.
        runError e ?sql (tablesAfter e t (first # rest) j (tables ?d1))
          (coerceRow e ((first # rest) ! j)) = None" by simp
  from at have a: "runError e ?sql (tablesAfter e t (first # rest) k (tables ?d1))
          (coerceRow e ((first # rest) ! k)) = Some detail" by simp
  from insertRows_refused [OF k b a, of "evs @ [Begin t, Prepare t ?sql]"] obtain d2 evs2 where
    rows: "insertRows e t ?sql (first # rest) (?d1, evs @ [Begin t, Prepare t ?sql]) =
      (Inl detail, d2, evs2)" by blast
  have "snapshot d2 = Some (tables d)" using insertRows_snapshot [OF rows] by simp
  with closed have "execRollback d2 = d" by (rule rollback_restores)
  with closed parsed prepared rows have
    "parseAndInsert e csv t (d, evs) =
       (Inl (insertFailure t detail), d, evs2 @ [Rollback t, Free t, Reject t (insertFailure t detail)])"
    by (simp add: parseAndInsert_def Let_def begin_closed del: insertRows.simps)
  then show ?thesis by blast
qed

text \<open>
  Claim C2. Starting with no transaction open, one call of \<open>parseAndInsert\<close> ends with no
  transaction open and either resolves, and then the CSV text parsed without errors and
  the table holds its former rows followed by every parsed record, coerced, while the
  other tables are unchanged; or it rejects, and then every table holds exactly the rows
  it held before the call. When the CSV text parsed without errors and the call does not
  resolve, the rejection is the insert failure
  \<open>Error inserting data into <table>: <detail>\<close> and \<open>ROLLBACK\<close> was executed.

  Which of the two happens is decided by the engine, for a CSV text that parsed without
  errors into at least one record. If the engine refuses to prepare the \<open>INSERT\<close>
  statement, the call rejects with the insert failure that carries the engine's message.
  If the engine prepares the statement and accepts every row, each one run against the
  tables as the rows before it left them, the call resolves and every parsed row is
  committed. If the engine accepts the rows before row \<open>k\<close> and refuses row \<open>k\<close>, the call
  rejects with the insert failure that carries the engine's message for row \<open>k\<close>, and
  every table holds exactly the rows it held before the call: the rows before row \<open>k\<close> are
  not kept. In the examples the second row repeats the key of the first and the call
  rejects with an empty table; with two distinct keys the call resolves with both rows.
\<close>

theorem ingest_atomic:
  assumes closed: "snapshot d = None"
    and run: "parseAndInsert e csv t (d, evs) = (r, d', evs')"
  shows "snapshot d' = None \<and>
    ((r = Inr () \<and>
      (\<exists>rows. papaParse e csv = PapaComplete \<lparr>errors = [], data = rows\<rparr> \<and>
         tables d' = (tables d)(t := tables d t @ map (coerceRow e) rows)))
     \<or> (\<exists>msg. r = Inl msg \<and> tables d' = tables d)) \<and>
    (\<forall>rows. papaParse e csv = PapaComplete \<lparr>errors = [], data = rows\<rparr> \<and> r \<noteq> Inr () \<longrightarrow>
       (\<exists>detail. r = Inl (insertFailure t detail)) \<and> Rollback t \<in> set evs') \<and>
    (\<forall>first rest.
       papaParse e csv = PapaComplete \<lparr>errors = [], data = first # rest\<rparr> \<longrightarrow>
       (\<forall>detail. prepareError e (insertSql t (objectKeys first)) = Some detail \<longrightarrow>
          r = Inl (insertFailure t detail) \<and> tables d' = tables d) \<and>
       (prepareError e (insertSql t (objectKeys first)) = None \<and>
        (\<forall>k < length (first # rest).
           runError e (insertSql t (objectKeys first))
             (tablesAfter e t (first # rest) k (tables d))
             (coerceRow e ((first # rest) ! k)) = None) \<longrightarrow>
          r = Inr () \<and>
          tables d' = (tables d)(t := tables d t @ map (coerceRow e) (first # rest))) \<and>
       (\<forall>k detail.
          prepareError e (insertSql t (objectKeys first)) = None \<and> k < length (first # rest) \<and>
          (\<forall>j < k.
             runError e (insertSql t (objectKeys first))
               (tablesAfter e t (first # rest) j (tables d))
               (coerceRow e ((first # rest) ! j)) = None) \<and>
          runError e (insertSql t (objectKeys first))
            (tablesAfter e t (first # rest) k (tables d))
            (coerceRow e ((first # rest) ! k)) = Some detail \<longrightarrow>
          r = Inl (insertFailure t detail) \<and> tables d' = tables d))"
proof -
  have old: "snapshot d' = None \<and>
    ((r = Inr () \<and>
      (\<exists>rows. papaParse e csv = PapaComplete \<lparr>errors = [], data = rows\<rparr> \<and>
         tables d' = (tables d)(t := tables d t @ map (coerceRow e) rows)))
     \<or> (\<exists>msg. r = Inl msg \<and> tables d' = tables d)) \<and>
    (\<forall>rows. papaParse e csv = PapaComplete \<lparr>errors = [], data = rows\<rparr> \<and> r \<noteq> Inr () \<longrightarrow>
       (\<exists>detail. r = Inl (insertFailure t detail)) \<and> Rollback t \<in> set evs')"
    using parseAndInsert_cases [OF closed run] closed
    by (elim disjE exE conjE) auto
  have new: "(\<forall>detail. prepareError e (insertSql t (objectKeys first)) = Some detail \<longrightarrow>
          r = Inl (insertFailure t detail) \<and> tables d' = tables d) \<and>
       (prepareError e (insertSql t (objectKeys first)) = None \<and>
        (\<forall>k < length (first # rest).
           runError e (insertSql t (objectKeys first))
             (tablesAfter e t (first # rest) k (tables d))
             (coerceRow e ((first # rest) ! k)) = None) \<longrightarrow>
          r = Inr () \<and>
          tables d' = (tables d)(t := tables d t @ map (coerceRow e) (first # rest))) \<and>
       (\<forall>k detail.
          prepareError e (insertSql t (objectKeys first)) = None \<and> k < length (first # rest) \<and>
          (\<forall>j < k.
             runError e (insertSql t (objectKeys first))
               (tablesAfter e t (first # rest) j (tables d))
               (coerceRow e ((first # rest) ! j)) = None) \<and>
          runError e (insertSql t (objectKeys first))
            (tablesAfter e t (first # rest) k (tables d))
            (coerceRow e ((first # rest) ! k)) = Some detail \<longrightarrow>
          r = Inl (insertFailure t detail) \<and> tables d' = tables d)"
    if parsed: "papaParse e csv = PapaComplete \<lparr>errors = [], data = first # rest\<rparr>"
    for first rest
  proof (intro conjI allI impI)
    fix detail
    assume "prepareError e (insertSql t (objectKeys first)) = Some detail"
    from parseAndInsert_prepare_refused [OF closed parsed this, of evs] run
    show "r = Inl (insertFailure t detail)" "tables d' = tables d" by simp_all
  next
    assume a: "prepareError e (insertSql t (objectKeys first)) = None \<and>
        (\<forall>k < length (first # rest).
           runError e (insertSql t (objectKeys first))
             (tablesAfter e t (first # rest) k (tables d))
             (coerceRow e ((first # rest) ! k)) = None)"
    from parseAndInsert_accepted [OF closed parsed conjunct1 [OF a] conjunct2 [OF a], of evs] run
    show "r = Inr ()"
      "tables d' = (tables d)(t := tables d t @ map (coerceRow e) (first # rest))"
      by (simp_all add: tablesAfter_def)
  next
    fix k detail
    assume a: "prepareError e (insertSql t (objectKeys first)) = None \<and> k < length (first # rest) \<and>
          (\<forall>j < k.
             runError e (insertSql t (objectKeys first))
               (tablesAfter e t (first # rest) j (tables d))
               (coerceRow e ((first # rest) ! j)) = None) \<and>
          runError e (insertSql t (objectKeys first))
            (tablesAfter e t (first # rest) k (tables d))
            (coerceRow e ((first # rest) ! k)) = Some detail"
    then have p: "prepareError e (insertSql t (objectKeys first)) = None"
      and k: "k < length (first # rest)"
      and b: "\<forall>j < k.
             runError e (insertSql t (objectKeys first))
               (tablesAfter e t (first # rest) j (tables d))
               (coerceRow e ((first # rest) ! j)) = None"
      and at: "runError e (insertSql t (objectKeys first))
            (tablesAfter e t (first # rest) k (tables d))
            (coerceRow e ((first # rest) ! k)) = Some detail"
      by blast+
    from parseAndInsert_run_refused [OF closed parsed p k b at, of evs] run
    show "r = Inl (insertFailure t detail)" "tables d' = tables d" by auto
  qed
  from old new show ?thesis by blast
qed

theorem ingest_atomic_witness:
  "snapshot emptyDatabase = None \<and>
   (\<exists>d' evs'.
      parseAndInsert sampleEnv duplicateKeyCsv ''product_total_sales_metrics'' (emptyDatabase, [])
        = (Inl (insertFailure ''product_total_sales_metrics'' ''UNIQUE constraint failed''),
           d', evs') \<and>
      snapshot d' = None \<and> tables d' = tables emptyDatabase \<and>
      Rollback ''product_total_sales_metrics'' \<in> set evs') \<and>
   (\<exists>d' evs'.
      parseAndInsert sampleEnv totalSalesCsv ''product_total_sales_metrics'' (emptyDatabase, [])
        = (Inr (), d', evs') \<and>
      snapshot d' = None \<and>
      tables d' = (tables emptyDatabase)(''product_total_sales_metrics'' :=
        [[SqlText ''2025-06-01'', SqlText ''A1'', SqlNumber (Num 10), SqlNumber (Num 1)],
         [SqlText ''2025-06-01'', SqlText ''B2'', SqlNumber (Num 25), SqlNumber (Num 2)]]))"
proof -
  let ?t = "''product_total_sales_metrics''"
  let ?r0 = "[(''date'', CString ''2025-06-01''), (''item_id'', CString ''A1''),
              (''total_sales'', CString ''10''), (''total_units_ordered'', CString ''1'')]"
  let ?dup = "[(''date'', CString ''2025-06-01''), (''item_id'', CString ''A1''),
              (''total_sales'', CString ''11''), (''total_units_ordered'', CString ''2'')]"
  let ?r1 = "[(''date'', CString ''2025-06-01''), (''item_id'', CString ''B2''),
              (''total_sales'', CString ''25''), (''total_units_ordered'', CString ''2'')]"
  let ?sql = "insertSql ?t (objectKeys ?r0)"
  have prepared: "prepareError sampleEnv ?sql = None" by code_simp
  have first: "\<exists>d' evs'.
      parseAndInsert sampleEnv duplicateKeyCsv ?t (emptyDatabase, [])
        = (Inl (insertFailure ?t ''UNIQUE constraint failed''), d', evs') \<and>
      snapshot d' = None \<and> tables d' = tables emptyDatabase \<and> Rollback ?t \<in> set evs'"
  proof -
    have p: "papaParse sampleEnv duplicateKeyCsv =
        PapaComplete \<lparr>errors = [], data = ?r0 # [?dup]\<rparr>"
      by code_simp
    have k: "(1::nat) < length (?r0 # [?dup])" by simp
    have r0: "runError sampleEnv ?sql
        (tablesAfter sampleEnv ?t (?r0 # [?dup]) 0 (tables emptyDatabase))
        (coerceRow sampleEnv ((?r0 # [?dup]) ! 0)) = None"
      by code_simp
    have before: "\<forall>j < (1::nat). runError sampleEnv ?sql
        (tablesAfter sampleEnv ?t (?r0 # [?dup]) j (tables emptyDatabase))
        (coerceRow sampleEnv ((?r0 # [?dup]) ! j)) = None"
    proof (intro allI impI)
      fix j :: nat assume "j < 1"
      then have j: "j = 0" by simp
      show "runError sampleEnv ?sql
        (tablesAfter sampleEnv ?t (?r0 # [?dup]) j (tables emptyDatabase))
        (coerceRow sampleEnv ((?r0 # [?dup]) ! j)) = None"
        unfolding j by (rule r0)
    qed
    have at: "runError sampleEnv ?sql
        (tablesAfter sampleEnv ?t (?r0 # [?dup]) 1 (tables emptyDatabase))
        (coerceRow sampleEnv ((?r0 # [?dup]) ! 1)) = Some ''UNIQUE constraint failed''"
      by code_simp
    obtain r d' evs' where
      run: "parseAndInsert sampleEnv duplicateKeyCsv ?t (emptyDatabase, []) = (r, d', evs')"
      by (rule prod_cases3)
    note atomic = ingest_atomic [OF sample_closed run]
    have closed': "snapshot d' = None" using atomic by (rule conjunct1)
    have clean: "\<forall>rows. papaParse sampleEnv duplicateKeyCsv =
          PapaComplete \<lparr>errors = [], data = rows\<rparr> \<and> r \<noteq> Inr () \<longrightarrow>
       (\<exists>detail. r = Inl (insertFailure ?t detail)) \<and> Rollback ?t \<in> set evs'"
      using atomic by (rule conjunct1 [OF conjunct2 [OF conjunct2]])
    have "r = Inl (insertFailure ?t ''UNIQUE constraint failed'') \<and> tables d' = tables emptyDatabase"
      using atomic [THEN conjunct2, THEN conjunct2, THEN conjunct2, rule_format, OF p,
          THEN conjunct2, THEN conjunct2, rule_format, of 1 "''UNIQUE constraint failed''"]
        prepared k before at
      by blast
    then have r: "r = Inl (insertFailure ?t ''UNIQUE constraint failed'')"
      and same: "tables d' = tables emptyDatabase" by blast+
    have "r \<noteq> Inr ()" unfolding r by simp
    with clean p have "Rollback ?t \<in> set evs'" by blast
    with run r closed' same show ?thesis by blast
  qed
  have second: "\<exists>d' evs'.
      parseAndInsert sampleEnv totalSalesCsv ?t (emptyDatabase, []) = (Inr (), d', evs') \<and>
      snapshot d' = None \<and>
      tables d' = (tables emptyDatabase)(?t :=
        [[SqlText ''2025-06-01'', SqlText ''A1'', SqlNumber (Num 10), SqlNumber (Num 1)],
         [SqlText ''2025-06-01'', SqlText ''B2'', SqlNumber (Num 25), SqlNumber (Num 2)]])"
  proof -
    have p: "papaParse sampleEnv totalSalesCsv =
        PapaComplete \<lparr>errors = [], data = ?r0 # [?r1]\<rparr>"
      by code_simp
    have r0: "runError sampleEnv ?sql
        (tablesAfter sampleEnv ?t (?r0 # [?r1]) 0 (tables emptyDatabase))
        (coerceRow sampleEnv ((?r0 # [?r1]) ! 0)) = None"
      by code_simp
    have r1: "runError sampleEnv ?sql
        (tablesAfter sampleEnv ?t (?r0 # [?r1]) (Suc 0) (tables emptyDatabase))
        (coerceRow sampleEnv ((?r0 # [?r1]) ! Suc 0)) = None"
      by code_simp
    have accepted: "\<forall>k < length (?r0 # [?r1]). runError sampleEnv ?sql
        (tablesAfter sampleEnv ?t (?r0 # [?r1]) k (tables emptyDatabase))
        (coerceRow sampleEnv ((?r0 # [?r1]) ! k)) = None"
    proof (intro allI impI)
      fix k :: nat assume "k < length (?r0 # [?r1])"
      then have "k = 0 \<or> k = Suc 0" by auto
      then show "runError sampleEnv ?sql
        (tablesAfter sampleEnv ?t (?r0 # [?r1]) k (tables emptyDatabase))
        (coerceRow sampleEnv ((?r0 # [?r1]) ! k)) = None"
      proof
        assume k: "k = 0" show ?thesis unfolding k by (rule r0)
      next
        assume k: "k = Suc 0" show ?thesis unfolding k by (rule r1)
      qed
    qed
    have rows: "tables emptyDatabase ?t @ map (coerceRow sampleEnv) (?r0 # [?r1]) =
        [[SqlText ''2025-06-01'', SqlText ''A1'', SqlNumber (Num 10), SqlNumber (Num 1)],
         [SqlText ''2025-06-01'', SqlText ''B2'', SqlNumber (Num 25), SqlNumber (Num 2)]]"
      by code_simp
    obtain r d' evs' where
      run: "parseAndInsert sampleEnv totalSalesCsv ?t (emptyDatabase, []) = (r, d', evs')"
      by (rule prod_cases3)
    note atomic = ingest_atomic [OF sample_closed run]
    have closed': "snapshot d' = None" using atomic by (rule conjunct1)
    have "r = Inr () \<and> tables d' = (tables emptyDatabase)(?t :=
        tables emptyDatabase ?t @ map (coerceRow sampleEnv) (?r0 # [?r1]))"
      using atomic [THEN conjunct2, THEN conjunct2, THEN conjunct2, rule_format, OF p,
          THEN conjunct2, THEN conjunct1] prepared accepted
      by blast
    then have r: "r = Inr ()" and t: "tables d' = (tables emptyDatabase)(?t :=
        tables emptyDatabase ?t @ map (coerceRow sampleEnv) (?r0 # [?r1]))" by blast+
    from run r closed' t [unfolded rows] show ?thesis by blast
  qed
  from sample_closed first second show ?thesis by blast
qed

section \<open>Boolean literals in every column\<close>




section \<open>A header with an unknown column\<close>

text \<open>
  Claim C10 says that a header with a column name that the fixed schema of the table does
  not have makes the ingestion fail. The schema of the total-sales table has the column
  \<open>date\<close> and no column \<open>DATE\<close>, and it has no column \<open>rowid\<close>. The engine reads column names
  without regard to the case of the letters and knows the key \<open>rowid\<close> of every row, as
  SQLite does: it prepares the statement that names \<open>DATE\<close> and the one that names
  \<open>rowid\<close>; both calls resolve and the row is run and committed, in the second case with
  the five values bound.
\<close>

theorem undeclared_header_counterexample:
  "papaParse sampleEnv upperCaseHeaderCsv = PapaComplete
     \<lparr>errors = [],
      data = [[(''DATE'', CString ''2025-06-01''), (''item_id'', CString ''A1''),
               (''total_sales'', CString ''10''), (''total_units_ordered'', CString ''1'')]]\<rparr> \<and>
   declaredType ''product_total_sales_metrics'' ''DATE'' = None \<and>
   fst (parseAndInsert sampleEnv upperCaseHeaderCsv ''product_total_sales_metrics''
     (emptyDatabase, [])) = Inr () \<and>
   tables (fst (snd (parseAndInsert sampleEnv upperCaseHeaderCsv ''product_total_sales_metrics''
     (emptyDatabase, [])))) ''product_total_sales_metrics'' =
     [[SqlText ''2025-06-01'', SqlText ''A1'', SqlNumber (Num 10), SqlNumber (Num 1)]] \<and>
   papaParse sampleEnv rowidHeaderCsv = PapaComplete
     \<lparr>errors = [],
      data = [[(''date'', CString ''2025-06-01''), (''item_id'', CString ''A1''),
               (''total_sales'', CString ''10''), (''total_units_ordered'', CString ''1''),
               (''rowid'', CString ''7'')]]\<rparr> \<and>
   declaredType ''product_total_sales_metrics'' ''rowid'' = None \<and>
   fst (parseAndInsert sampleEnv rowidHeaderCsv ''product_total_sales_metrics''
     (emptyDatabase, [])) = Inr () \<and>
   tables (fst (snd (parseAndInsert sampleEnv rowidHeaderCsv ''product_total_sales_metrics''
     (emptyDatabase, [])))) ''product_total_sales_metrics'' =
     [[SqlText ''2025-06-01'', SqlText ''A1'', SqlNumber (Num 10), SqlNumber (Num 1),
       SqlNumber (Num 7)]]"
  by code_simp

text \<open>
  Claim C10, amended. \<open>parseAndInsert\<close> checks no column of the header against the schema.
  The \<open>INSERT\<close> statement built from the keys of the first record names every one of them
  in double quotes, declared or not, and the outcome is the engine's. If the engine
  refuses to prepare the statement, as SQLite does for a name that is no column of the
  table, the call rejects with the insert failure that carries the engine's message,
  \<open>ROLLBACK\<close> is executed, no row is run and the database is what it was before the call.
  If the engine prepares the statement, as SQLite does for a name that differs from a
  declared one only in the case of its letters and for \<open>rowid\<close>, and accepts every row, the call resolves
  and every row is run and committed. If the engine prepares the statement and refuses a
  row, the call rejects with the insert failure and the database is what it was before
  the call. In the examples the header with the column \<open>region\<close> is refused and the header
  with the column \<open>DATE\<close> is ingested.
\<close>

theorem header_columns_reach_engine:
  assumes closed: "snapshot d = None"
    and parsed: "papaParse e csv = PapaComplete \<lparr>errors = [], data = first # rest\<rparr>"
  shows "(\<forall>c \<in> set (objectKeys first).
            includesStr (insertSql t (objectKeys first)) ([CHR 0x22] @ c @ [CHR 0x22])) \<and>
         (\<forall>detail. prepareError e (insertSql t (objectKeys first)) = Some detail \<longrightarrow>
            parseAndInsert e csv t (d, evs) =
              (Inl (insertFailure t detail), d,
               evs @ [Begin t, Prepare t (insertSql t (objectKeys first)), Rollback t,
                      Reject t (insertFailure t detail)])) \<and>
         (prepareError e (insertSql t (objectKeys first)) = None \<and>
          (\<forall>k < length (first # rest).
             runError e (insertSql t (objectKeys first))
               (tablesAfter e t (first # rest) k (tables d))
               (coerceRow e ((first # rest) ! k)) = None) \<longrightarrow>
            parseAndInsert e csv t (d, evs) =
              (Inr (),
               d\<lparr>tables := (tables d)(t := tables d t @ map (coerceRow e) (first # rest))\<rparr>,
               evs @ [Begin t, Prepare t (insertSql t (objectKeys first))] @
                 map (\<lambda>row. Run t (coerceRow e row)) (first # rest) @
                 [Commit t, Free t, Resolve t])) \<and>
         (\<forall>k detail.
            prepareError e (insertSql t (objectKeys first)) = None \<and> k < length (first # rest) \<and>
            (\<forall>j < k.
               runError e (insertSql t (objectKeys first))
                 (tablesAfter e t (first # rest) j (tables d))
                 (coerceRow e ((first # rest) ! j)) = None) \<and>
            runError e (insertSql t (objectKeys first))
              (tablesAfter e t (first # rest) k (tables d))
              (coerceRow e ((first # rest) ! k)) = Some detail \<longrightarrow>
            fst (parseAndInsert e csv t (d, evs)) = Inl (insertFailure t detail) \<and>
            fst (snd (parseAndInsert e csv t (d, evs))) = d)"
proof (intro conjI ballI allI impI)
  fix c assume "c \<in> set (objectKeys first)"
  then show "includesStr (insertSql t (objectKeys first)) ([CHR 0x22] @ c @ [CHR 0x22])"
    by (rule insertSql_names_column)
next
  fix detail assume "prepareError e (insertSql t (objectKeys first)) = Some detail"
  from parseAndInsert_prepare_refused [OF closed parsed this]
  show "parseAndInsert e csv t (d, evs) =
              (Inl (insertFailure t detail), d,
               evs @ [Begin t, Prepare t (insertSql t (objectKeys first)), Rollback t,
                      Reject t (insertFailure t detail)])" .
next
  assume a: "prepareError e (insertSql t (objectKeys first)) = None \<and>
          (\<forall>k < length (first # rest).
             runError e (insertSql t (objectKeys first))
               (tablesAfter e t (first # rest) k (tables d))
               (coerceRow e ((first # rest) ! k)) = None)"
  have all: "tablesAfter e t (first # rest) (length (first # rest)) (tables d) =
      (tables d)(t := tables d t @ map (coerceRow e) (first # rest))"
    by (simp add: tablesAfter_def)
  from parseAndInsert_accepted [OF closed parsed conjunct1 [OF a] conjunct2 [OF a], of evs]
  show "parseAndInsert e csv t (d, evs) =
              (Inr (),
               d\<lparr>tables := (tables d)(t := tables d t @ map (coerceRow e) (first # rest))\<rparr>,
               evs @ [Begin t, Prepare t (insertSql t (objectKeys first))] @
                 map (\<lambda>row. Run t (coerceRow e row)) (first # rest) @
                 [Commit t, Free t, Resolve t])"
    unfolding all .
next
  fix k detail
  assume a: "prepareError e (insertSql t (objectKeys first)) = None \<and> k < length (first # rest) \<and>
            (\<forall>j < k.
               runError e (insertSql t (objectKeys first))
                 (tablesAfter e t (first # rest) j (tables d))
                 (coerceRow e ((first # rest) ! j)) = None) \<and>
            runError e (insertSql t (objectKeys first))
              (tablesAfter e t (first # rest) k (tables d))
              (coerceRow e ((first # rest) ! k)) = Some detail"
  then have p: "prepareError e (insertSql t (objectKeys first)) = None"
    and k: "k < length (first # rest)"
    and b: "\<forall>j < k.
           runError e (insertSql t (objectKeys first))
             (tablesAfter e t (first # rest) j (tables d))
             (coerceRow e ((first # rest) ! j)) = None"
    and at: "runError e (insertSql t (objectKeys first))
          (tablesAfter e t (first # rest) k (tables d))
          (coerceRow e ((first # rest) ! k)) = Some detail"
    by blast+
  from parseAndInsert_run_refused [OF closed parsed p k b at, of evs]
  show "fst (parseAndInsert e csv t (d, evs)) = Inl (insertFailure t detail)"
    "fst (snd (parseAndInsert e csv t (d, evs))) = d" by auto
qed

theorem header_columns_reach_engine_witness:
  "declaredType ''product_total_sales_metrics'' ''region'' = None \<and>
   includesStr
     (insertSql ''product_total_sales_metrics''
        [''date'', ''item_id'', ''total_sales'', ''total_units_ordered'', ''region''])
     ([CHR 0x22] @ ''region'' @ [CHR 0x22]) \<and>
   parseAndInsert sampleEnv extraColumnCsv ''product_total_sales_metrics'' (emptyDatabase, []) =
     (Inl (insertFailure ''product_total_sales_metrics'' ''no such column''), emptyDatabase,
      [Begin ''product_total_sales_metrics'',
       Prepare ''product_total_sales_metrics''
         (insertSql ''product_total_sales_metrics''
            [''date'', ''item_id'', ''total_sales'', ''total_units_ordered'', ''region'']),
       Rollback ''product_total_sales_metrics'',
       Reject ''product_total_sales_metrics''
         (insertFailure ''product_total_sales_metrics'' ''no such column'')]) \<and>
   declaredType ''product_total_sales_metrics'' ''DATE'' = None \<and>
   parseAndInsert sampleEnv upperCaseHeaderCsv ''product_total_sales_metrics'' (emptyDatabase, []) =
     (Inr (),
      emptyDatabase\<lparr>tables := (tables emptyDatabase)(''product_total_sales_metrics'' :=
        [[SqlText ''2025-06-01'', SqlText ''A1'', SqlNumber (Num 10), SqlNumber (Num 1)]])\<rparr>,
      [Begin ''product_total_sales_metrics'',
       Prepare ''product_total_sales_metrics''
         (insertSql ''product_total_sales_metrics''
            [''DATE'', ''item_id'', ''total_sales'', ''total_units_ordered'']),
       Run ''product_total_sales_metrics''
         [SqlText ''2025-06-01'', SqlText ''A1'', SqlNumber (Num 10), SqlNumber (Num 1)],
       Commit ''product_total_sales_metrics'', Free ''product_total_sales_metrics'',
       Resolve ''product_total_sales_metrics''])"
proof -
  let ?t = "''product_total_sales_metrics''"
  let ?extra = "[(''date'', CString ''2025-06-01''), (''item_id'', CString ''A1''),
                 (''total_sales'', CString ''10''), (''total_units_ordered'', CString ''1''),
                 (''region'', CString ''EU'')]"
  let ?upper = "[(''DATE'', CString ''2025-06-01''), (''item_id'', CString ''A1''),
                 (''total_sales'', CString ''10''), (''total_units_ordered'', CString ''1'')]"
  have p1: "papaParse sampleEnv extraColumnCsv = PapaComplete \<lparr>errors = [], data = ?extra # []\<rparr>"
    by code_simp
  have k1: "objectKeys ?extra =
             [''date'', ''item_id'', ''total_sales'', ''total_units_ordered'', ''region'']"
    by (simp add: objectKeys_def)
  have c1: "''region'' \<in> set (objectKeys ?extra)" by (simp add: objectKeys_def)
  have u1: "declaredType ?t ''region'' = None" by code_simp
  have f1: "prepareError sampleEnv (insertSql ?t (objectKeys ?extra)) = Some ''no such column''"
    by code_simp
  note extra = header_columns_reach_engine [OF sample_closed p1, of ?t "[]"]
  have names: "includesStr (insertSql ?t (objectKeys ?extra)) ([CHR 0x22] @ ''region'' @ [CHR 0x22])"
    using extra [THEN conjunct1] c1 by blast
  have refused: "parseAndInsert sampleEnv extraColumnCsv ?t (emptyDatabase, []) =
     (Inl (insertFailure ?t ''no such column''), emptyDatabase,
      [] @ [Begin ?t, Prepare ?t (insertSql ?t (objectKeys ?extra)), Rollback ?t,
       Reject ?t (insertFailure ?t ''no such column'')])"
    using extra [THEN conjunct2, THEN conjunct1] f1 by blast
  have p2: "papaParse sampleEnv upperCaseHeaderCsv = PapaComplete \<lparr>errors = [], data = ?upper # []\<rparr>"
    by code_simp
  have k2: "objectKeys ?upper = [''DATE'', ''item_id'', ''total_sales'', ''total_units_ordered'']"
    by (simp add: objectKeys_def)
  have u2: "declaredType ?t ''DATE'' = None" by code_simp
  have f2: "prepareError sampleEnv (insertSql ?t (objectKeys ?upper)) = None"
    by code_simp
  have r2: "runError sampleEnv (insertSql ?t (objectKeys ?upper))
      (tablesAfter sampleEnv ?t (?upper # []) 0 (tables emptyDatabase))
      (coerceRow sampleEnv ((?upper # []) ! 0)) = None"
    by code_simp
  have accepted: "\<forall>k < length (?upper # []). runError sampleEnv (insertSql ?t (objectKeys ?upper))
      (tablesAfter sampleEnv ?t (?upper # []) k (tables emptyDatabase))
      (coerceRow sampleEnv ((?upper # []) ! k)) = None"
  proof (intro allI impI)
    fix k :: nat assume "k < length (?upper # [])"
    then have k: "k = 0" by simp
    show "runError sampleEnv (insertSql ?t (objectKeys ?upper))
      (tablesAfter sampleEnv ?t (?upper # []) k (tables emptyDatabase))
      (coerceRow sampleEnv ((?upper # []) ! k)) = None"
      unfolding k by (rule r2)
  qed
  have row: "coerceRow sampleEnv ?upper =
      [SqlText ''2025-06-01'', SqlText ''A1'', SqlNumber (Num 10), SqlNumber (Num 1)]"
    by code_simp
  have e0: "tables emptyDatabase ?t = []" by (simp add: emptyDatabase_def)
  note upper = header_columns_reach_engine [OF sample_closed p2, of ?t "[]"]
  have stored: "parseAndInsert sampleEnv upperCaseHeaderCsv ?t (emptyDatabase, []) =
     (Inr (),
      emptyDatabase\<lparr>tables := (tables emptyDatabase)(?t :=
        tables emptyDatabase ?t @ map (coerceRow sampleEnv) (?upper # []))\<rparr>,
      [] @ [Begin ?t, Prepare ?t (insertSql ?t (objectKeys ?upper))] @
        map (\<lambda>row. Run ?t (coerceRow sampleEnv row)) (?upper # []) @
        [Commit ?t, Free ?t, Resolve ?t])"
    using upper [THEN conjunct2, THEN conjunct2, THEN conjunct1] f2 accepted by blast
  have stored': "parseAndInsert sampleEnv upperCaseHeaderCsv ?t (emptyDatabase, []) =
     (Inr (),
      emptyDatabase\<lparr>tables := (tables emptyDatabase)(?t :=
        [[SqlText ''2025-06-01'', SqlText ''A1'', SqlNumber (Num 10), SqlNumber (Num 1)]])\<rparr>,
      [Begin ?t, Prepare ?t (insertSql ?t [''DATE'', ''item_id'', ''total_sales'', ''total_units_ordered'']),
       Run ?t [SqlText ''2025-06-01'', SqlText ''A1'', SqlNumber (Num 10), SqlNumber (Num 1)],
       Commit ?t, Free ?t, Resolve ?t])"
    unfolding stored k2 by (simp only: e0 row list.map append_Nil append_Cons)
  have refused': "parseAndInsert sampleEnv extraColumnCsv ?t (emptyDatabase, []) =
     (Inl (insertFailure ?t ''no such column''), emptyDatabase,
      [Begin ?t, Prepare ?t (insertSql ?t
         [''date'', ''item_id'', ''total_sales'', ''total_units_ordered'', ''region'']), Rollback ?t,
       Reject ?t (insertFailure ?t ''no such column'')])"
    unfolding refused k1 by (simp only: append_Nil)
  from u1 names [unfolded k1] refused' u2 stored' show ?thesis by (intro conjI)
qed

section \<open>Answering a question\<close>

subsection \<open>The sentinel\<close>

lemma startsWith_map: "startsWith s p \<Longrightarrow> startsWith (map f s) (map f p)"
  by (induction s p rule: startsWith.induct) simp_all

lemma includesStr_map: "includesStr s p \<Longrightarrow> includesStr (map f s) (map f p)"
proof (induction s)
  case Nil
  then show ?case by simp
next
  case (Cons c cs)
  then show ?case using startsWith_map [of "c # cs" p f] by auto
qed

lemma sentinel_upper: "toUpperCase ''N/A'' = ''N/A''"
  by code_simp

lemma contains_sentinel:
  assumes "includesStr sqlQuery ''N/A'' \<or> includesStr (toUpperCase sqlQuery) ''N/A''"
  shows "isUnanswerable v sqlQuery"
proof -
  have "includesStr (toUpperCase sqlQuery) ''N/A''"
    using assms includesStr_map [of sqlQuery "''N/A''" upperChar] sentinel_upper
    by (auto simp: toUpperCase_def)
  then show ?thesis by (cases v) (simp_all add: isUnanswerable_def)
qed

subsection \<open>Row objects\<close>





subsection \<open>The sample state\<close>

lemma sampleReady_guards:
  "apiKey sampleReady \<noteq> []" "db sampleReady \<noteq> None" "isDatabaseReady sampleReady"
  "trim (question sampleReady) \<noteq> []" "effects sampleReady \<noteq> []"
  by code_simp+

subsection \<open>The typed text\<close>

text \<open>
  When every updater runs as soon as it is given to the setter, the typing leaves the
  whole text. When the first updater runs at once and the later ones after the counter
  has advanced, as in the sample environment, the typing leaves the text without its
  second character. A text of one character is shown when its updater runs at once and
  lost when the updater runs after the counter has advanced.
\<close>

lemma concat_singletons: "concat (map (\<lambda>k. [f k]) xs) = map f xs"
  by (induction xs) simp_all

lemma typedText_at_once: "typedText (\<lambda>k. 0) text = text"
proof -
  have m: "map (\<lambda>k. charAt text (k + 0)) [0 ..< length text] =
      map (\<lambda>k. [text ! k]) [0 ..< length text]"
    by (rule map_cong) (simp_all add: charAt_def)
  show ?thesis unfolding typedText_def m concat_singletons by (rule map_nth)
qed

lemma typedText_single: "typedText lag [c] = (if lag 0 = 0 then [c] else [])"
  by (simp add: typedText_def charAt_def)

lemma typedText_deferred: "typedText sampleLag (c # c' # cs) = c # cs"
proof -
  have split: "[0 ..< length (c # c' # cs)] = 0 # map Suc [0 ..< Suc (length cs)]"
    by (simp add: upt_conv_Cons map_Suc_upt del: upt_Suc)
  have later: "map (\<lambda>k. charAt (c # c' # cs) (k + sampleLag k)) (map Suc [0 ..< Suc (length cs)]) =
      map (charAt cs) [0 ..< length cs] @ [[]]"
    by (simp add: charAt_def sampleLag_def)
  have all: "concat (map (charAt cs) [0 ..< length cs]) = cs"
    using typedText_at_once [of cs] by (simp add: typedText_def)
  have first: "charAt (c # c' # cs) (0 + sampleLag 0) = [c]"
    by (simp add: charAt_def sampleLag_def)
  show ?thesis
    unfolding typedText_def split list.map later first by (simp add: all)
qed

subsection \<open>The two short circuits\<close>

text \<open>
  Claim C4. Let a question pass the four guards and let the SQL text taken from the first
  reply contain the sentinel \<open>N/A\<close>, as it stands or after upper-casing. Then, in both
  versions of the component, \<open>askQuestion\<close> ends in the state it started from with no
  error, no chart, loading ended, and two more effects: the request for the SQL and the
  call of \<open>typeText\<close> with the fixed message. No query is executed and no second request is
  issued, whatever the second reply would have been. The answer shown is what the typing
  leaves of the fixed message: the message itself when every updater runs at once, and
  in the sample environment, where the later updaters run after the counter has
  advanced, the message without its second character.
\<close>

theorem unanswerable_short_circuit:
  assumes guards: "apiKey s \<noteq> []" "db s = Some d" "isDatabaseReady s" "trim (question s) \<noteq> []"
    and sql: "extractSql v e reply1 = Sql (Some sqlQuery)"
    and na: "includesStr sqlQuery ''N/A'' \<or> includesStr (toUpperCase sqlQuery) ''N/A''"
  shows "askQuestion v e reply1 reply2 s =
           s\<lparr>isLoading := False, answer := typedText (updaterLag e) (cannotAnswer v),
              error := [], chartData := None, chartType := None,
              effects := effects s @ [Fetch SqlRequest, StartTyping (cannotAnswer v)]\<rparr>"
  using guards sql contains_sentinel [OF na, of v]
  by (simp add: askQuestion_def Let_def typeText_def)

theorem unanswerable_short_circuit_witness:
  "includesStr ''-- N/A'' ''N/A'' \<and>
   extractSql FencedReply sampleEnv (Body (Some (fencedSql ''-- N/A''))) = Sql (Some ''-- N/A'') \<and>
   extractSql JsonReply sampleEnv (Body (Some (jsonSql ''n/a''))) = Sql (Some ''n/a'') \<and>
   cannotAnswer JsonReply =
     ''I'' @ [CHR 0x27] @ ''m sorry, I cannot answer that question with the available data.'' \<and>
   answer (askQuestion JsonReply sampleEnv (Body (Some (jsonSql ''n/a'')))
             (Body (Some replyBarChart)) sampleReady) =
     ''Im sorry, I cannot answer that question with the available data.'' \<and>
   effects (askQuestion JsonReply sampleEnv (Body (Some (jsonSql ''n/a'')))
              (Body (Some replyBarChart)) sampleReady) =
     effects sampleReady @ [Fetch SqlRequest, StartTyping (cannotAnswer JsonReply)] \<and>
   answer (askQuestion FencedReply sampleEnv (Body (Some (fencedSql ''-- N/A'')))
             (Body (Some replyBarChart)) sampleReady) =
     typedText sampleLag (cannotAnswer FencedReply) \<and>
   answer (askQuestion FencedReply sampleEnv (Body (Some (fencedSql ''-- N/A'')))
             (Body (Some replyBarChart)) sampleReady) \<noteq> cannotAnswer FencedReply \<and>
   effects (askQuestion FencedReply sampleEnv (Body (Some (fencedSql ''-- N/A'')))
              (Body (Some replyBarChart)) sampleReady) =
     effects sampleReady @ [Fetch SqlRequest, StartTyping (cannotAnswer FencedReply)]"
proof -
  obtain d where d: "db sampleReady = Some d" using sampleReady_guards(2) by blast
  have x1: "extractSql FencedReply sampleEnv (Body (Some (fencedSql ''-- N/A''))) = Sql (Some ''-- N/A'')"
    by code_simp
  have x2: "extractSql JsonReply sampleEnv (Body (Some (jsonSql ''n/a''))) = Sql (Some ''n/a'')"
    by code_simp
  have n1: "includesStr ''-- N/A'' ''N/A''" by code_simp
  have n2: "includesStr (toUpperCase ''n/a'') ''N/A''" by code_simp
  have lag: "updaterLag sampleEnv = sampleLag" by (simp add: sampleEnv_def)
  have msg: "cannotAnswer JsonReply =
      ''I'' @ [CHR 0x27] @ ''m sorry, I cannot answer that question with the available data.''"
    by code_simp
  have typed: "typedText sampleLag (cannotAnswer JsonReply) =
      ''Im sorry, I cannot answer that question with the available data.''"
    by code_simp
  have differs: "typedText sampleLag (cannotAnswer FencedReply) \<noteq> cannotAnswer FencedReply"
    by code_simp
  note g = sampleReady_guards(1) d sampleReady_guards(3,4)
  note json = unanswerable_short_circuit [OF g x2 disjI2 [OF n2], of "Body (Some replyBarChart)",
    unfolded lag]
  note fenced = unanswerable_short_circuit [OF g x1 disjI1 [OF n1], of "Body (Some replyBarChart)",
    unfolded lag]
  have aj: "answer (askQuestion JsonReply sampleEnv (Body (Some (jsonSql ''n/a'')))
             (Body (Some replyBarChart)) sampleReady) =
     ''Im sorry, I cannot answer that question with the available data.''"
    unfolding json by (simp add: typed)
  have ej: "effects (askQuestion JsonReply sampleEnv (Body (Some (jsonSql ''n/a'')))
              (Body (Some replyBarChart)) sampleReady) =
     effects sampleReady @ [Fetch SqlRequest, StartTyping (cannotAnswer JsonReply)]"
    unfolding json by simp
  have af: "answer (askQuestion FencedReply sampleEnv (Body (Some (fencedSql ''-- N/A'')))
             (Body (Some replyBarChart)) sampleReady) =
     typedText sampleLag (cannotAnswer FencedReply)"
    unfolding fenced by simp
  have nf: "answer (askQuestion FencedReply sampleEnv (Body (Some (fencedSql ''-- N/A'')))
             (Body (Some replyBarChart)) sampleReady) \<noteq> cannotAnswer FencedReply"
    unfolding af by (rule differs)
  have ef: "effects (askQuestion FencedReply sampleEnv (Body (Some (fencedSql ''-- N/A'')))
              (Body (Some replyBarChart)) sampleReady) =
     effects sampleReady @ [Fetch SqlRequest, StartTyping (cannotAnswer FencedReply)]"
    unfolding fenced by simp
  from n1 x1 x2 msg aj ej af nf ef show ?thesis by (intro conjI)
qed

text \<open>
  Claim C5. Let a question pass the four guards and let the SQL text taken from the first
  reply not contain the sentinel. If executing it returns no result set, which is what
  the engine returns for a query without rows, \<open>askQuestion\<close> ends with no error after it
  called \<open>typeText\<close> with the fixed message
  \<open>The query executed successfully but returned no results.\<close>; if executing it throws,
  \<open>askQuestion\<close> ends with an empty answer and the error \<open>SQL execution error: ...\<close> that
  carries the SQL text, and \<open>typeText\<close> is not called. In both cases no second request is
  issued: the Answer Synthesizer is not invoked. The answer shown for a query without
  rows is what the typing leaves of the fixed message: in the sample environment,
  \<open>Te query executed successfully but returned no results.\<close>
\<close>

theorem no_rows_short_circuit:
  assumes guards: "apiKey s \<noteq> []" "db s = Some d" "isDatabaseReady s" "trim (question s) \<noteq> []"
    and sql: "extractSql v e reply1 = Sql (Some sqlQuery)"
    and answerable: "\<not> isUnanswerable v sqlQuery"
  shows "(execQuery e sqlQuery = ExecReturns [] \<longrightarrow>
            askQuestion v e reply1 reply2 s =
              s\<lparr>isLoading := False, answer := typedText (updaterLag e) noResults, error := [],
                 chartData := None, chartType := None,
                 effects := effects s @ [Fetch SqlRequest, Query sqlQuery,
                                         StartTyping noResults]\<rparr>) \<and>
         (\<forall>msg. execQuery e sqlQuery = ExecThrows msg \<longrightarrow>
            askQuestion v e reply1 reply2 s =
              s\<lparr>isLoading := False, answer := [],
                 error := ''SQL execution error: '' @ msg @ ''. Generated SQL: '' @ sqlQuery,
                 chartData := None, chartType := None,
                 effects := effects s @ [Fetch SqlRequest, Query sqlQuery]\<rparr>)"
  using guards sql answerable
  by (simp add: askQuestion_def Let_def typeText_def)

theorem no_rows_short_circuit_witness:
  "extractSql JsonReply sampleEnv (Body (Some (jsonSql emptyQuery))) = Sql (Some emptyQuery) \<and>
   \<not> isUnanswerable JsonReply emptyQuery \<and> execQuery sampleEnv emptyQuery = ExecReturns [] \<and>
   noResults = ''The query executed successfully but returned no results.'' \<and>
   answer (askQuestion JsonReply sampleEnv (Body (Some (jsonSql emptyQuery)))
             (Body (Some replyBarChart)) sampleReady) =
     ''Te query executed successfully but returned no results.'' \<and>
   error (askQuestion JsonReply sampleEnv (Body (Some (jsonSql emptyQuery)))
            (Body (Some replyBarChart)) sampleReady) = [] \<and>
   effects (askQuestion JsonReply sampleEnv (Body (Some (jsonSql emptyQuery)))
              (Body (Some replyBarChart)) sampleReady) =
     effects sampleReady @ [Fetch SqlRequest, Query emptyQuery, StartTyping noResults] \<and>
   execQuery sampleEnv ''SELEC'' = ExecThrows ''syntax error'' \<and>
   answer (askQuestion JsonReply sampleEnv (Body (Some (jsonSql ''SELEC'')))
             (Body (Some replyBarChart)) sampleReady) = [] \<and>
   error (askQuestion JsonReply sampleEnv (Body (Some (jsonSql ''SELEC'')))
            (Body (Some replyBarChart)) sampleReady) =
     ''SQL execution error: syntax error. Generated SQL: SELEC''"
proof -
  obtain d where d: "db sampleReady = Some d" using sampleReady_guards(2) by blast
  note g = sampleReady_guards(1) d sampleReady_guards(3,4)
  have x1: "extractSql JsonReply sampleEnv (Body (Some (jsonSql emptyQuery))) = Sql (Some emptyQuery)"
    by code_simp
  have x2: "extractSql JsonReply sampleEnv (Body (Some (jsonSql ''SELEC''))) = Sql (Some ''SELEC'')"
    by code_simp
  have a1: "\<not> isUnanswerable JsonReply emptyQuery" by code_simp
  have a2: "\<not> isUnanswerable JsonReply ''SELEC''" by code_simp
  have q1: "execQuery sampleEnv emptyQuery = ExecReturns []" by code_simp
  have q2: "execQuery sampleEnv ''SELEC'' = ExecThrows ''syntax error''" by code_simp
  have msg: "noResults = ''The query executed successfully but returned no results.''"
    by code_simp
  have typed: "typedText (updaterLag sampleEnv) noResults =
      ''Te query executed successfully but returned no results.''"
    by code_simp
  note empty = no_rows_short_circuit [OF g x1 a1, of "Body (Some replyBarChart)", THEN conjunct1,
    rule_format, OF q1]
  note throws = no_rows_short_circuit [OF g x2 a2, of "Body (Some replyBarChart)", THEN conjunct2,
    rule_format, OF q2]
  have ae: "answer (askQuestion JsonReply sampleEnv (Body (Some (jsonSql emptyQuery)))
             (Body (Some replyBarChart)) sampleReady) =
     ''Te query executed successfully but returned no results.''"
    unfolding empty by (simp add: typed)
  have ee: "error (askQuestion JsonReply sampleEnv (Body (Some (jsonSql emptyQuery)))
            (Body (Some replyBarChart)) sampleReady) = []"
    unfolding empty by simp
  have fe: "effects (askQuestion JsonReply sampleEnv (Body (Some (jsonSql emptyQuery)))
              (Body (Some replyBarChart)) sampleReady) =
     effects sampleReady @ [Fetch SqlRequest, Query emptyQuery, StartTyping noResults]"
    unfolding empty by simp
  have at: "answer (askQuestion JsonReply sampleEnv (Body (Some (jsonSql ''SELEC'')))
             (Body (Some replyBarChart)) sampleReady) = []"
    unfolding throws by simp
  have et: "error (askQuestion JsonReply sampleEnv (Body (Some (jsonSql ''SELEC'')))
            (Body (Some replyBarChart)) sampleReady) =
     ''SQL execution error: syntax error. Generated SQL: SELEC''"
    unfolding throws by simp
  from x1 a1 q1 msg ae ee fe q2 at et show ?thesis by (intro conjI)
qed

subsection \<open>The suggested chart\<close>




end
